theory Spec2Isabelle
  imports Complex_Main "HOL-Library.Sublist"
begin

section \<open>JavaScript values used by the service\<close>

text \<open>
  A thrown JavaScript value, as far as the service looks at it: the fields
  \<^verbatim>\<open>name\<close> and \<^verbatim>\<open>message\<close>.  \<^verbatim>\<open>new Error(msg)\<close> has the name
  \<^verbatim>\<open>Error\<close>; an aborted fetch rejects with an error named \<^verbatim>\<open>AbortError\<close>.
  A computation that may throw returns \<open>js_error + 'a\<close>, with \<open>Inl\<close> the thrown value.
\<close>

datatype js_error = JsError (err_name: string) (err_message: string)

definition new_Error :: "string \<Rightarrow> js_error" where
  "new_Error msg = JsError ''Error'' msg"

text \<open>\<^verbatim>\<open>a || b\<close> on strings: the empty string is falsy.\<close>

definition str_or :: "string \<Rightarrow> string \<Rightarrow> string" where
  "str_or a b = (if a \<noteq> [] then a else b)"

text \<open>
  \<^verbatim>\<open>Array.prototype.slice(start, end)\<close> for integer arguments: a negative index
  counts from the end, and both indices are clamped to the array.
\<close>

definition js_index :: "nat \<Rightarrow> int \<Rightarrow> nat" where
  "js_index n i = (if i < 0 then nat (max (int n + i) 0) else min (nat i) n)"

definition js_slice :: "int \<Rightarrow> int \<Rightarrow> 'a list \<Rightarrow> 'a list" where
  "js_slice start end xs =
     (let from = js_index (length xs) start; to = js_index (length xs) end
      in take (to - from) (drop from xs))"

definition js_slice_from :: "int \<Rightarrow> 'a list \<Rightarrow> 'a list" where
  "js_slice_from start xs = drop (js_index (length xs) start) xs"

text \<open>
  Strings are lists of 8-bit characters.  \<^verbatim>\<open>s.startsWith(p)\<close>, \<^verbatim>\<open>s.includes(sub)\<close>,
  \<^verbatim>\<open>s.split(c)[0]\<close> and \<^verbatim>\<open>s.trim()\<close> (white space and line terminators of the
  Latin-1 range).
\<close>

definition startsWith :: "string \<Rightarrow> string \<Rightarrow> bool" where
  "startsWith s p = (take (length p) s = p)"

fun str_includes :: "string \<Rightarrow> string \<Rightarrow> bool" where
  "str_includes [] sub = (sub = [])"
| "str_includes (c # cs) sub = (startsWith (c # cs) sub \<or> str_includes cs sub)"

definition split_first :: "char \<Rightarrow> string \<Rightarrow> string" where
  "split_first sep s = takeWhile (\<lambda>c. c \<noteq> sep) s"

definition js_whitespace :: "char \<Rightarrow> bool" where
  "js_whitespace c = (c \<in> {CHR 0x09, CHR 0x0A, CHR 0x0B, CHR 0x0C, CHR 0x0D, CHR 0x20, CHR 0xA0})"

definition js_trim :: "string \<Rightarrow> string" where
  "js_trim s = rev (dropWhile js_whitespace (rev (dropWhile js_whitespace s)))"

text \<open>\<^verbatim>\<open>String(n)\<close> for a non-negative integer.\<close>

definition digit_char :: "nat \<Rightarrow> char" where
  "digit_char d = char_of (of_char (CHR ''0'') + d)"

function show_nat :: "nat \<Rightarrow> string" where
  "show_nat n = (if n < 10 then [digit_char n] else show_nat (n div 10) @ [digit_char (n mod 10)])"
  by pat_completeness auto
termination
  by (relation "measure (\<lambda>n. n)") auto

declare show_nat.simps [simp del]

text \<open>
  Untyped data (\<^verbatim>\<open>any\<close>): parsed JSON payloads and the object literals handed to
  \<^verbatim>\<open>JSON.stringify\<close> and to the SDK.  An object is the list of its own properties,
  each key once; numbers are rationals.
\<close>

datatype js_value =
    Undefined
  | Null
  | Bool bool
  | Num rat
  | Str string
  | Arr "js_value list"
  | Obj "(string \<times> js_value) list"

fun truthy :: "js_value \<Rightarrow> bool" where
  "truthy Undefined = False"
| "truthy Null = False"
| "truthy (Bool b) = b"
| "truthy (Num n) = (n \<noteq> 0)"
| "truthy (Str s) = (s \<noteq> [])"
| "truthy (Arr xs) = True"
| "truthy (Obj kvs) = True"

definition TypeError :: "string \<Rightarrow> js_error" where
  "TypeError msg = JsError ''TypeError'' msg"

text \<open>
  Property access \<^verbatim>\<open>v.key\<close>, for the data keys the service reads (none of them is
  a property of a prototype): it throws on \<^verbatim>\<open>null\<close> and \<^verbatim>\<open>undefined\<close>.
  \<^verbatim>\<open>v?.key\<close> gives \<^verbatim>\<open>undefined\<close> there instead.
\<close>

fun js_get :: "js_value \<Rightarrow> string \<Rightarrow> js_error + js_value" where
  "js_get Undefined key =
     Inl (TypeError (''Cannot read properties of undefined (reading '' @ [CHR 0x27] @ key @ [CHR 0x27] @ '')''))"
| "js_get Null key =
     Inl (TypeError (''Cannot read properties of null (reading '' @ [CHR 0x27] @ key @ [CHR 0x27] @ '')''))"
| "js_get (Obj kvs) key = Inr (case map_of kvs key of Some v \<Rightarrow> v | None \<Rightarrow> Undefined)"
| "js_get (Arr xs) key = Inr (if key = ''0'' then (case xs of [] \<Rightarrow> Undefined | x # _ \<Rightarrow> x) else Undefined)"
| "js_get (Str s) key = Inr (if key = ''0'' then (case s of [] \<Rightarrow> Undefined | c # _ \<Rightarrow> Str [c]) else Undefined)"
| "js_get (Bool b) key = Inr Undefined"
| "js_get (Num n) key = Inr Undefined"

fun js_get_opt :: "js_value \<Rightarrow> string \<Rightarrow> js_value" where
  "js_get_opt v key = (case js_get v key of Inl _ \<Rightarrow> Undefined | Inr x \<Rightarrow> x)"

section \<open>Data model (types.ts)\<close>

datatype ProviderType = DeepLX | OpenAI | Gemini

fun provider_string :: "ProviderType \<Rightarrow> string" where
  "provider_string DeepLX = ''DeepLX''"
| "provider_string OpenAI = ''OpenAI''"
| "provider_string Gemini = ''Gemini''"

record ApiConfig =
  deeplxEndpoint :: string
  openaiBaseUrl :: string
  openaiKey :: string
  geminiBaseUrl :: string
  geminiKey :: string
  tavilyKey :: string
  braveKey :: string

record TranslationState =
  ts_sourceText :: string
  ts_translatedText :: string
  ts_isLoading :: bool
  ts_error :: "string option"
  ts_sourceLang :: string
  ts_targetLang :: string
  ts_selectedProvider :: ProviderType
  ts_selectedModel :: string
  ts_industry :: string
  ts_attachedImage :: "string option"
  ts_tempImage :: "string option"

record HistoryItem =
  h_id :: string
  h_sourceText :: string
  h_translatedText :: string
  h_sourceLang :: string
  h_targetLang :: string
  h_provider :: ProviderType
  h_timestamp :: int
  isFavorite :: bool
  wasImage :: bool

section \<open>Translation history (App component)\<close>

text \<open>
  \<^verbatim>\<open>addToHistory\<close> closes over the two translation panels' states; \<^verbatim>\<open>uuidv4()\<close>
  and \<^verbatim>\<open>Date.now()\<close> are passed in as \<open>uuid\<close> and \<open>now\<close>.  The state
  updater it hands to \<^verbatim>\<open>setHistory\<close> is applied to the previous history \<open>prev\<close>.
\<close>

definition new_history_item ::
  "TranslationState \<Rightarrow> TranslationState \<Rightarrow> string \<Rightarrow> int \<Rightarrow> string \<Rightarrow> string \<Rightarrow> bool \<Rightarrow> HistoryItem" where
  "new_history_item transState imgTransState uuid now source result isImage =
     \<lparr> h_id = uuid,
       h_sourceText = source,
       h_translatedText = result,
       h_sourceLang = (if isImage then ts_sourceLang imgTransState else ts_sourceLang transState),
       h_targetLang = (if isImage then ts_targetLang imgTransState else ts_targetLang transState),
       h_provider = (if isImage then ts_selectedProvider imgTransState else ts_selectedProvider transState),
       h_timestamp = now,
       isFavorite = False,
       wasImage = isImage \<rparr>"

definition addToHistory ::
  "TranslationState \<Rightarrow> TranslationState \<Rightarrow> string \<Rightarrow> int \<Rightarrow> string \<Rightarrow> string \<Rightarrow> bool
     \<Rightarrow> HistoryItem list \<Rightarrow> HistoryItem list" where
  "addToHistory transState imgTransState uuid now source result isImage prev =
     js_slice 0 50 (new_history_item transState imgTransState uuid now source result isImage # prev)"

definition onToggleFavorite :: "string \<Rightarrow> HistoryItem list \<Rightarrow> HistoryItem list" where
  "onToggleFavorite ident prev =
     map (\<lambda>h. if h_id h = ident then h\<lparr>isFavorite := \<not> isFavorite h\<rparr> else h) prev"

definition onDelete :: "string \<Rightarrow> HistoryItem list \<Rightarrow> HistoryItem list" where
  "onDelete ident prev = filter (\<lambda>h. h_id h \<noteq> ident) prev"

definition onClearHistory :: "HistoryItem list \<Rightarrow> HistoryItem list" where
  "onClearHistory prev = filter isFavorite prev"

section \<open>The surroundings of the service\<close>

text \<open>
  What the service calls but does not define: the browser's \<^verbatim>\<open>fetch\<close> and
  \<^verbatim>\<open>JSON.parse\<close>, the OCR worker, the generative-AI SDK.  Each is a function of
  the environment \<open>E\<close> giving the outcome of the call.  The body of a request is kept
  as the value handed to \<^verbatim>\<open>JSON.stringify\<close>, the abort signal as a number.
\<close>

record RequestInit =
  ri_method :: "string option"
  ri_headers :: "(string \<times> string) list"
  ri_body :: "js_value option"
  ri_signal :: "nat option"

record Response =
  resp_ok :: bool
  resp_status :: nat
  resp_text :: "js_error + string"

datatype GoogleGenAI = GoogleGenAI (client_apiKey: "string option")

datatype GroundingChunkWeb = GroundingChunkWeb (web_uri: "string option") (web_title: "string option")

datatype GroundingChunk = GroundingChunk (web: "GroundingChunkWeb option")

datatype GroundingMetadata = GroundingMetadata (groundingChunks: "GroundingChunk list option")

datatype Candidate = Candidate (groundingMetadata: "GroundingMetadata option")

record GenerateContentResponse =
  response_text :: "string option"
  candidates :: "Candidate list option"

record SearchSource =
  title :: string
  uri :: string
  snippet :: "string option"

text \<open>
  \<open>SearchSource\<close> is the declared type.  At run time the entries that come out of a
  JSON payload carry whatever the payload holds: \<open>AnySource\<close> is a source object with
  each field any value, \<open>any_source\<close> the object of a source of the declared type (a
  missing snippet is \<^verbatim>\<open>undefined\<close>).
\<close>

record AnySource =
  any_title :: js_value
  any_uri :: js_value
  any_snippet :: js_value

definition any_source :: "SearchSource \<Rightarrow> AnySource" where
  "any_source s =
     \<lparr>any_title = Str (title s), any_uri = Str (uri s),
      any_snippet = (case snippet s of Some t \<Rightarrow> Str t | None \<Rightarrow> Undefined)\<rparr>"

record SearchResult =
  result_text :: string
  sources :: "AnySource list"

record WikiData =
  wiki_title :: string
  wiki_uri :: string
  wiki_content :: js_value

text \<open>
  \<open>URL_toString\<close> is the text of a \<^verbatim>\<open>URL\<close> with the given search parameters appended,
  \<open>to_string\<close> the text a template literal makes of a number, an array or an object.
  Of \<^verbatim>\<open>fetchWikipedia\<close> the environment gives what its \<^verbatim>\<open>try\<close> block comes to
  (\<open>wikipedia_outcome\<close>): the entry it builds has a title and a URI that are strings by
  construction (a concatenation and a template literal), and as content whatever
  \<^verbatim>\<open>extract.slice(0, 1500)\<close> gives.
\<close>

record env =
  fetch :: "string \<Rightarrow> RequestInit \<Rightarrow> js_error + Response"
  JSON_parse :: "string \<Rightarrow> js_value option"
  to_string :: "js_value \<Rightarrow> string"
  process_env_API_KEY :: "string option"
  createWorker :: "string \<Rightarrow> js_error + unit"
  worker_recognize :: "string \<Rightarrow> string \<Rightarrow> js_error + string"
  worker_terminate :: "string \<Rightarrow> js_error + unit"
  new_GoogleGenAI :: "string option \<Rightarrow> js_error + unit"
  models_generateContent :: "GoogleGenAI \<Rightarrow> js_value \<Rightarrow> js_error + GenerateContentResponse"
  chats_sendMessage :: "GoogleGenAI \<Rightarrow> js_value \<Rightarrow> js_value \<Rightarrow> js_error + GenerateContentResponse"
  wikipedia_outcome :: "string \<Rightarrow> js_error + WikiData option"
  URL_toString :: "string \<Rightarrow> (string \<times> string) list \<Rightarrow> string"

text \<open>
  Every call that leaves the service is recorded, in order.  \<open>is_ocr\<close> marks the calls
  of the OCR worker.
\<close>

datatype event =
    NetFetch string RequestInit
  | OcrCreateWorker string
  | OcrRecognize string string
  | OcrTerminate string
  | NewGoogleGenAI "string option"
  | GenerateContent GoogleGenAI js_value
  | ChatSendMessage GoogleGenAI js_value js_value
  | WikipediaRequest string

fun is_ocr :: "event \<Rightarrow> bool" where
  "is_ocr (OcrCreateWorker lang) = True"
| "is_ocr (OcrRecognize lang img) = True"
| "is_ocr (OcrTerminate lang) = True"
| "is_ocr (NetFetch url init) = False"
| "is_ocr (NewGoogleGenAI key) = False"
| "is_ocr (GenerateContent ai params) = False"
| "is_ocr (ChatSendMessage ai params message) = False"
| "is_ocr (WikipediaRequest query) = False"

text \<open>
  The module's mutable state (\<^verbatim>\<open>activeConfig\<close>, \<^verbatim>\<open>aiInstance\<close>) and the record of
  calls made so far.  An asynchronous function is a function of this state that
  returns what its promise settles with and the state it leaves.
\<close>

record world =
  activeConfig :: ApiConfig
  aiInstance :: "GoogleGenAI option"
  trace :: "event list"

type_synonym 'a io = "world \<Rightarrow> (js_error + 'a) \<times> world"

definition io_return :: "'a \<Rightarrow> 'a io" where
  "io_return x = (\<lambda>w. (Inr x, w))"

definition io_throw :: "js_error \<Rightarrow> 'a io" where
  "io_throw e = (\<lambda>w. (Inl e, w))"

definition io_bind :: "'a io \<Rightarrow> ('a \<Rightarrow> 'b io) \<Rightarrow> 'b io" where
  "io_bind m f = (\<lambda>w. case m w of (Inl e, w') \<Rightarrow> (Inl e, w') | (Inr x, w') \<Rightarrow> f x w')"

definition io_catch :: "'a io \<Rightarrow> (js_error \<Rightarrow> 'a io) \<Rightarrow> 'a io" where
  "io_catch m h = (\<lambda>w. case m w of (Inl e, w') \<Rightarrow> h e w' | (Inr x, w') \<Rightarrow> (Inr x, w'))"

definition io_call :: "event \<Rightarrow> (js_error + 'a) \<Rightarrow> 'a io" where
  "io_call ev outcome = (\<lambda>w. (outcome, w\<lparr>trace := trace w @ [ev]\<rparr>))"

definition io_config :: "ApiConfig io" where
  "io_config = (\<lambda>w. (Inr (activeConfig w), w))"

text \<open>One element of \<^verbatim>\<open>Promise.allSettled\<close>: rejection becomes a value.\<close>

definition io_settled :: "'a io \<Rightarrow> (js_error + 'a) io" where
  "io_settled m = (\<lambda>w. case m w of (r, w') \<Rightarrow> (Inr r, w'))"

section \<open>translationService.ts\<close>

definition updateServiceConfig :: "ApiConfig \<Rightarrow> world \<Rightarrow> world" where
  "updateServiceConfig newConfig w = w\<lparr>activeConfig := newConfig, aiInstance := None\<rparr>"

text \<open>
  \<^verbatim>\<open>getAiClient\<close>: a missing key is only warned about on the console; the client is
  built with whatever key there is, and cached.
\<close>

definition getAiClient :: "env \<Rightarrow> GoogleGenAI io" where
  "getAiClient E = (\<lambda>w.
     case aiInstance w of
       Some ai \<Rightarrow> (Inr ai, w)
     | None \<Rightarrow>
         (let key = (if geminiKey (activeConfig w) \<noteq> [] then Some (geminiKey (activeConfig w))
                     else process_env_API_KEY E);
              w1 = w\<lparr>trace := trace w @ [NewGoogleGenAI key]\<rparr>
          in case new_GoogleGenAI E key of
               Inl e \<Rightarrow> (Inl e, w1)
             | Inr _ \<Rightarrow> (Inr (GoogleGenAI key), w1\<lparr>aiInstance := Some (GoogleGenAI key)\<rparr>)))"

record TranslateParams =
  p_text :: string
  p_sourceLang :: string
  p_targetLang :: string
  p_imageBase64 :: "string option"
  p_model :: string
  p_industry :: "string option"

record FetchResult =
  fr_ok :: bool
  fr_status :: nat
  fr_data :: js_value
  fr_text :: string

definition safeFetch :: "env \<Rightarrow> string \<Rightarrow> RequestInit \<Rightarrow> FetchResult io" where
  "safeFetch E url options =
     io_catch
       (io_bind (io_call (NetFetch url options) (fetch E url options)) (\<lambda>response.
        io_bind (\<lambda>w. (resp_text response, w)) (\<lambda>text.
        let data = (if text \<noteq> [] then (case JSON_parse E text of Some d \<Rightarrow> d | None \<Rightarrow> Null)
                    else Null)
        in io_return \<lparr>fr_ok = resp_ok response, fr_status = resp_status response,
                       fr_data = data, fr_text = text\<rparr>)))
       (\<lambda>error.
          if err_name error = ''AbortError'' then io_throw error
          else io_return \<lparr>fr_ok = False, fr_status = 0, fr_data = Null, fr_text = []\<rparr>)"

definition tesseract_langs :: "(string \<times> string) list" where
  "tesseract_langs =
     [(''ZH'', ''chi_sim''), (''EN'', ''eng''), (''JA'', ''jpn''), (''KO'', ''kor''),
      (''FR'', ''fra''), (''DE'', ''deu''), (''ES'', ''spa''), (''RU'', ''rus''),
      (''PT'', ''por''), (''IT'', ''ita''), (''NL'', ''nld''), (''PL'', ''pol''),
      (''TR'', ''tur''), (''AR'', ''ara''), (''HI'', ''hin''), (''VI'', ''vie''),
      (''TH'', ''tha''), (''ID'', ''ind''), (''auto'', ''eng'')]"

definition getTesseractLang :: "string \<Rightarrow> string" where
  "getTesseractLang code =
     (case map_of tesseract_langs code of Some l \<Rightarrow> str_or l ''eng'' | None \<Rightarrow> ''eng'')"

definition performOCR :: "env \<Rightarrow> string \<Rightarrow> string \<Rightarrow> string io" where
  "performOCR E imageBase64 lang =
     (let tesseractLang = getTesseractLang lang
      in io_catch
           (io_bind (io_call (OcrCreateWorker tesseractLang) (createWorker E tesseractLang)) (\<lambda>worker.
            io_bind (io_call (OcrRecognize tesseractLang imageBase64)
                       (worker_recognize E tesseractLang imageBase64)) (\<lambda>ret.
            io_bind (io_call (OcrTerminate tesseractLang) (worker_terminate E tesseractLang)) (\<lambda>_.
            io_return ret))))
           (\<lambda>e. io_throw (new_Error (''Failed to extract text from image. '' @ err_message e))))"

text \<open>A template literal's \<^verbatim>\<open>${v}\<close>, and \<^verbatim>\<open>a || b\<close> on untyped values.\<close>

definition template :: "env \<Rightarrow> js_value \<Rightarrow> string" where
  "template E v =
     (case v of
        Str s \<Rightarrow> s
      | Undefined \<Rightarrow> ''undefined''
      | Null \<Rightarrow> ''null''
      | Bool b \<Rightarrow> (if b then ''true'' else ''false'')
      | _ \<Rightarrow> to_string E v)"

definition js_or :: "js_value \<Rightarrow> js_value \<Rightarrow> js_value" where
  "js_or a b = (if truthy a then a else b)"

definition deeplx_options :: "TranslateParams \<Rightarrow> RequestInit" where
  "deeplx_options params =
     \<lparr>ri_method = Some ''POST'',
      ri_headers = [(''Content-Type'', ''application/json'')],
      ri_body = Some (Obj
        [(''text'', Str (p_text params)),
         (''source_lang'', Str (if p_sourceLang params = ''auto'' then ''auto''
                                 else p_sourceLang params)),
         (''target_lang'', Str (p_targetLang params))]),
      ri_signal = None\<rparr>"

definition translateDeepLX :: "env \<Rightarrow> TranslateParams \<Rightarrow> js_value io" where
  "translateDeepLX E params =
     io_bind io_config (\<lambda>cfg.
     let endpoint = deeplxEndpoint cfg
     in if endpoint = [] then io_throw (new_Error ''DeepLX Endpoint is not configured.'')
        else
          io_bind (safeFetch E endpoint (deeplx_options params)) (\<lambda>result.
          if \<not> fr_ok result then io_throw (new_Error (''DeepLX Error: '' @ show_nat (fr_status result)))
          else if \<not> truthy (fr_data result) then io_throw (new_Error ''DeepLX returned invalid JSON'')
          else if js_get_opt (fr_data result) ''code'' \<noteq> Num 200
            then io_throw (new_Error (''DeepLX API Error: ''
                   @ template E (js_or (js_get_opt (fr_data result) ''message'') (Str ''Unknown''))))
          else io_return (js_get_opt (fr_data result) ''data'')))"

definition completion_url :: "string \<Rightarrow> string" where
  "completion_url baseUrl =
     (let cleanBase = rev (dropWhile (\<lambda>c. c = CHR ''/'') (rev baseUrl))
      in cleanBase @ ''/chat/completions'')"

definition completion_options ::
  "string \<Rightarrow> string \<Rightarrow> js_value list \<Rightarrow> rat \<Rightarrow> nat option \<Rightarrow> RequestInit" where
  "completion_options apiKey model messages temperature signal =
     \<lparr>ri_method = Some ''POST'',
      ri_headers = [(''Content-Type'', ''application/json''),
                    (''Authorization'', ''Bearer '' @ apiKey)],
      ri_body = Some (Obj [(''model'', Str model), (''messages'', Arr messages),
                           (''temperature'', Num temperature)]),
      ri_signal = signal\<rparr>"

definition openAICompletion ::
  "env \<Rightarrow> string \<Rightarrow> string \<Rightarrow> string \<Rightarrow> js_value list \<Rightarrow> rat \<Rightarrow> nat option \<Rightarrow> js_value io" where
  "openAICompletion E baseUrl apiKey model messages temperature signal =
     io_bind (safeFetch E (completion_url baseUrl)
                (completion_options apiKey model messages temperature signal)) (\<lambda>result.
     if \<not> fr_ok result
       then io_throw (new_Error (''API Error '' @ show_nat (fr_status result) @ '': '' @ fr_text result))
     else if \<not> truthy (fr_data result)
       then io_throw (new_Error ''API returned empty or invalid JSON response'')
     else io_return (fr_data result))"

text \<open>\<^verbatim>\<open>data.choices?.[0]?.message?.content?.trim() || ""\<close>\<close>

definition first_choice_content :: "js_value \<Rightarrow> js_error + string" where
  "first_choice_content data =
     (case js_get data ''choices'' of
        Inl e \<Rightarrow> Inl e
      | Inr choices \<Rightarrow>
          (case js_get_opt (js_get_opt (js_get_opt choices ''0'') ''message'') ''content'' of
             Undefined \<Rightarrow> Inr []
           | Null \<Rightarrow> Inr []
           | Str s \<Rightarrow> Inr (str_or (js_trim s) [])
           | _ \<Rightarrow> Inl (TypeError ''data.choices?.[0]?.message?.content?.trim is not a function'')))"

definition translator_context :: "string option \<Rightarrow> string" where
  "translator_context industry =
     (case industry of
        Some i \<Rightarrow>
          (if i \<noteq> [] \<and> i \<noteq> ''General''
           then ''You are an expert translator specializing in the '' @ [CHR 0x22] @ i @ [CHR 0x22]
                @ '' field. Ensure terminology is accurate for this domain.''
           else ''You are a professional translator.'')
      | None \<Rightarrow> ''You are a professional translator.'')"

definition translateOpenAI :: "env \<Rightarrow> TranslateParams \<Rightarrow> string io" where
  "translateOpenAI E params =
     io_bind io_config (\<lambda>cfg.
     if openaiKey cfg = [] then io_throw (new_Error ''OpenAI API Key is missing.'')
     else
       (let context = translator_context (p_industry params);
            system = Obj [(''role'', Str ''system''),
                          (''content'', Str (context @ '' Translate to '' @ p_targetLang params
                             @ ''. Output exclusively in Markdown format. If the content contains tables, paragraphs, or lists, strictly preserve the structure using Markdown syntax. Do NOT use markdown code blocks for the entire output unless it is code.''))];
            userContent =
              [Obj [(''type'', Str ''text''), (''text'', Str (str_or (p_text params) '' ''))]]
              @ (case p_imageBase64 params of
                   Some img \<Rightarrow>
                     (if img \<noteq> []
                      then [Obj [(''type'', Str ''image_url''),
                                 (''image_url'', Obj [(''url'',
                                    Str (if startsWith img ''data:'' then img
                                         else ''data:image/jpeg;base64,'' @ img))])]]
                      else [])
                 | None \<Rightarrow> []);
            messages = [system, Obj [(''role'', Str ''user''), (''content'', Arr userContent)]]
        in io_catch
             (io_bind (openAICompletion E (openaiBaseUrl cfg) (openaiKey cfg) (p_model params)
                         messages (3 / 10) None) (\<lambda>data.
              (\<lambda>w. (first_choice_content data, w))))
             (\<lambda>e. io_throw (new_Error (str_or (err_message e) ''OpenAI translation failed'')))))"

text \<open>
  \<^verbatim>\<open>image.match(/^data:(.*?);base64,(.*)$/)\<close>: the dot matches no line terminator,
  so the whole string must be free of them; the lazy first group ends at the first
  \<^verbatim>\<open>;base64,\<close>.
\<close>

fun split_at :: "string \<Rightarrow> string \<Rightarrow> (string \<times> string) option" where
  "split_at sep [] = (if sep = [] then Some ([], []) else None)"
| "split_at sep (c # cs) =
     (if startsWith (c # cs) sep then Some ([], drop (length sep) (c # cs))
      else map_option (\<lambda>(a, b). (c # a, b)) (split_at sep cs))"

definition line_terminator :: "char \<Rightarrow> bool" where
  "line_terminator c = (c = CHR 0x0A \<or> c = CHR 0x0D)"

definition match_data_uri :: "string \<Rightarrow> (string \<times> string) option" where
  "match_data_uri s =
     (if startsWith s ''data:'' \<and> \<not> list_ex line_terminator s
      then split_at '';base64,'' (drop 5 s) else None)"

definition gemini_translate_instruction :: "string \<Rightarrow> string \<Rightarrow> string" where
  "gemini_translate_instruction context target =
     context @ '' Translate the following content to '' @ target
     @ ''.'' @ [CHR 0x0A] @ ''  1. Output exclusively in Markdown format.'' @ [CHR 0x0A]
     @ ''  2. If the input (text or image) contains tables, recreate them exactly as Markdown tables.''
     @ [CHR 0x0A] @ ''  3. Preserve headings, lists, and bolding using Markdown.'' @ [CHR 0x0A]
     @ ''  4. Do NOT wrap the entire response in a markdown code block (e.g., ''
     @ [CHR 0x60, CHR 0x60, CHR 0x60] @ ''markdown). Just return the raw markdown content.''"

definition inline_data :: "string \<Rightarrow> string \<Rightarrow> js_value" where
  "inline_data mimeType d = Obj [(''inlineData'', Obj [(''mimeType'', Str mimeType), (''data'', Str d)])]"

definition gemini_translate_request :: "TranslateParams \<Rightarrow> js_value" where
  "gemini_translate_request params =
     (let systemInstruction =
            gemini_translate_instruction (translator_context (p_industry params)) (p_targetLang params);
          hasImage = (case p_imageBase64 params of Some img \<Rightarrow> img \<noteq> [] | None \<Rightarrow> False);
          imageParts =
            (case p_imageBase64 params of
               Some img \<Rightarrow>
                 (if img \<noteq> []
                  then (case match_data_uri img of
                          Some (mimeType, d) \<Rightarrow> [inline_data mimeType d]
                        | None \<Rightarrow> [inline_data ''image/png'' img])
                  else [])
             | None \<Rightarrow> []);
          textParts =
            (if p_text params \<noteq> [] then [Obj [(''text'', Str (p_text params))]]
             else if \<not> hasImage then [Obj [(''text'', Str '' '')]]
             else []);
          contents = Obj [(''parts'', Arr (imageParts @ textParts))]
      in Obj [(''model'', Str (p_model params)), (''contents'', contents),
              (''config'', Obj [(''systemInstruction'', Str systemInstruction),
                                (''temperature'', Num (3 / 10))])])"

definition translateGemini :: "env \<Rightarrow> TranslateParams \<Rightarrow> string io" where
  "translateGemini E params =
     io_catch
       (io_bind (getAiClient E) (\<lambda>ai.
        io_bind (io_call (GenerateContent ai (gemini_translate_request params))
                   (models_generateContent E ai (gemini_translate_request params))) (\<lambda>response.
        io_return (case response_text response of Some t \<Rightarrow> t | None \<Rightarrow> []))))
       (\<lambda>e. io_throw (new_Error (str_or (err_message e) ''Gemini translation failed'')))"

definition translate :: "env \<Rightarrow> string \<Rightarrow> TranslateParams \<Rightarrow> js_value io" where
  "translate E provider params =
     (if provider = ''DeepLX'' then
        io_bind
          (case p_imageBase64 params of
             Some img \<Rightarrow>
               (if img \<noteq> [] \<and> p_text params = []
                then performOCR E img (p_sourceLang params)
                else io_return (p_text params))
           | None \<Rightarrow> io_return (p_text params)) (\<lambda>textToTranslate.
        if js_trim textToTranslate = [] then io_return (Str [])
        else translateDeepLX E (params\<lparr>p_text := textToTranslate\<rparr>))
      else if provider = ''OpenAI'' then
        io_bind (translateOpenAI E params) (\<lambda>t. io_return (Str t))
      else if provider = ''Gemini'' then
        io_bind (translateGemini E params) (\<lambda>t. io_return (Str t))
      else io_throw (new_Error (''Unknown provider: '' @ provider)))"

subsection \<open>chat\<close>

datatype role = User | Assistant

fun role_string :: "role \<Rightarrow> string" where
  "role_string User = ''user''"
| "role_string Assistant = ''assistant''"

record ChatMessage =
  m_id :: string
  m_role :: role
  m_content :: string
  m_timestamp :: int
  m_image :: "string option"

record ChatSettings =
  temperature :: rat
  maxContext :: int
  maxTurns :: int
  systemInstruction :: "string option"

definition default_chat_instruction :: string where
  "default_chat_instruction =
     ''You are an advanced AI assistant tailored for developers and professionals.''
     @ [CHR 0x0A] @ ''    '' @ [CHR 0x0A] @ ''    STRICT OUTPUT RULES:'' @ [CHR 0x0A]
     @ ''    1. **Markdown**: Use rigorous Markdown formatting. Headers, lists, bolding.''
     @ [CHR 0x0A]
     @ ''    2. **Code**: Always wrap code in triple backticks with the correct language identifier (e.g., ''
     @ [CHR 0x60, CHR 0x60, CHR 0x60] @ ''python).'' @ [CHR 0x0A]
     @ ''    3. **Diagrams**: Use Mermaid.js for all flowcharts, sequence diagrams, and class diagrams.''
     @ [CHR 0x0A] @ ''       - Use '' @ [CHR 0x60, CHR 0x60, CHR 0x60] @ ''mermaid''
     @ [CHR 0x60] @ '' code blocks.'' @ [CHR 0x0A] @ ''       - Prefer '' @ [CHR 0x60]
     @ ''flowchart TD'' @ [CHR 0x60] @ '' or '' @ [CHR 0x60] @ ''sequenceDiagram'' @ [CHR 0x60]
     @ ''.'' @ [CHR 0x0A]
     @ ''       - Quote all node labels to prevent syntax errors (e.g., A['' @ [CHR 0x22]
     @ ''Label'' @ [CHR 0x22] @ '']).'' @ [CHR 0x0A]
     @ ''    4. **Math**: Use LaTeX for mathematical formulas. Inline: $...$, Block: $$...$$.''
     @ [CHR 0x0A] @ ''    5. **Tables**: Use Markdown tables for structured data.''
     @ [CHR 0x0A] @ ''    '' @ [CHR 0x0A]
     @ ''    Be concise, accurate, and aesthetically pleasing in your output.''"

definition chat_instruction :: "ChatSettings \<Rightarrow> string" where
  "chat_instruction settings =
     (case systemInstruction settings of
        Some s \<Rightarrow> str_or s default_chat_instruction
      | None \<Rightarrow> default_chat_instruction)"

text \<open>\<^verbatim>\<open>messages.slice(-settings.maxContext)\<close>\<close>

definition contextMessages :: "ChatSettings \<Rightarrow> ChatMessage list \<Rightarrow> ChatMessage list" where
  "contextMessages settings messages = js_slice_from (- maxContext settings) messages"

definition gemini_parts :: "ChatMessage \<Rightarrow> js_value list" where
  "gemini_parts m =
     (case m_image m of
        Some img \<Rightarrow>
          (if img \<noteq> []
           then (case match_data_uri img of
                   Some (mimeType, d) \<Rightarrow> [inline_data mimeType d]
                 | None \<Rightarrow> [])
           else [])
      | None \<Rightarrow> [])
     @ [Obj [(''text'', Str (m_content m))]]"

definition gemini_turn :: "ChatMessage \<Rightarrow> js_value" where
  "gemini_turn m =
     Obj [(''role'', Str (if m_role m = Assistant then ''model'' else ''user'')),
          (''parts'', Arr (gemini_parts m))]"

definition gemini_history :: "ChatMessage list \<Rightarrow> js_value list" where
  "gemini_history context = map gemini_turn (js_slice 0 (- 1) context)"

definition openai_message :: "ChatMessage \<Rightarrow> js_value" where
  "openai_message m =
     (let plain = Obj [(''role'', Str (role_string (m_role m))), (''content'', Str (m_content m))]
      in case m_image m of
           Some img \<Rightarrow>
             (if img \<noteq> []
              then Obj [(''role'', Str (role_string (m_role m))),
                        (''content'', Arr
                           [Obj [(''type'', Str ''text''), (''text'', Str (m_content m))],
                            Obj [(''type'', Str ''image_url''),
                                 (''image_url'', Obj [(''url'', Str img)])]])]
              else plain)
         | None \<Rightarrow> plain)"

definition openAIMessages :: "string \<Rightarrow> ChatMessage list \<Rightarrow> js_value list" where
  "openAIMessages instruction context =
     Obj [(''role'', Str ''system''), (''content'', Str instruction)] # map openai_message context"

definition gemini_chat_config :: "string \<Rightarrow> ChatSettings \<Rightarrow> ChatMessage list \<Rightarrow> js_value" where
  "gemini_chat_config model settings context =
     Obj [(''model'', Str model),
          (''history'', Arr (gemini_history context)),
          (''config'', Obj [(''systemInstruction'', Str (chat_instruction settings)),
                            (''temperature'', Num (temperature settings))])]"

definition gemini_chat_message :: "ChatMessage \<Rightarrow> js_value" where
  "gemini_chat_message lastMessage =
     Obj [(''message'', Obj [(''parts'', Arr (gemini_parts lastMessage))])]"

text \<open>
  On the Gemini path the last message of an empty window is \<^verbatim>\<open>undefined\<close>, and
  reading its image throws before the \<^verbatim>\<open>try\<close>.  \<^verbatim>\<open>ai.chats.create\<close> and
  \<^verbatim>\<open>chat.sendMessage\<close> are one call of the SDK here.
\<close>

definition chat ::
  "env \<Rightarrow> ChatMessage list \<Rightarrow> ProviderType \<Rightarrow> string \<Rightarrow> ChatSettings \<Rightarrow> nat option \<Rightarrow> string io" where
  "chat E messages provider model settings signal =
     (let context = contextMessages settings messages
      in case provider of
           Gemini \<Rightarrow>
             (if context = []
              then io_throw (TypeError (''Cannot read properties of undefined (reading ''
                                         @ [CHR 0x27] @ ''image'' @ [CHR 0x27] @ '')''))
              else
                io_catch
                  (io_bind (getAiClient E) (\<lambda>ai.
                   io_bind (io_call
                      (ChatSendMessage ai (gemini_chat_config model settings context)
                         (gemini_chat_message (last context)))
                      (chats_sendMessage E ai (gemini_chat_config model settings context)
                         (gemini_chat_message (last context)))) (\<lambda>response.
                   io_return (case response_text response of Some t \<Rightarrow> t | None \<Rightarrow> []))))
                  (\<lambda>e. io_throw (new_Error (str_or (err_message e) ''Gemini chat failed''))))
         | OpenAI \<Rightarrow>
             io_bind io_config (\<lambda>cfg.
             if openaiKey cfg = [] then io_throw (new_Error ''OpenAI API Key is missing.'')
             else
               io_catch
                 (io_bind (openAICompletion E (openaiBaseUrl cfg) (openaiKey cfg) model
                             (openAIMessages (chat_instruction settings) context)
                             (temperature settings) signal) (\<lambda>data.
                  (\<lambda>w. (first_choice_content data, w))))
                 (\<lambda>e. if err_name e = ''AbortError'' then io_throw e
                      else io_throw (new_Error (str_or (err_message e) ''OpenAI chat failed''))))
         | DeepLX \<Rightarrow>
             io_throw (new_Error (''Provider '' @ provider_string provider
                                   @ '' not supported for chat yet.'')))"

subsection \<open>search\<close>

text \<open>
  Each adapter catches whatever its \<^verbatim>\<open>try\<close> block throws and answers with nothing
  (\<^verbatim>\<open>null\<close>, or the empty list); the two web-search adapters return the empty list at
  once when their key is not configured.
\<close>

definition fetchWikipedia :: "env \<Rightarrow> string \<Rightarrow> WikiData option io" where
  "fetchWikipedia E query =
     io_catch (io_call (WikipediaRequest query) (wikipedia_outcome E query))
       (\<lambda>e. io_return None)"

text \<open>
  \<^verbatim>\<open>(results || []).map(r => ({ title: r.title, uri: r.url, snippet: r[key] }))\<close> on an
  untyped payload: \<^verbatim>\<open>map\<close> exists on arrays only, and reading a property of a
  \<^verbatim>\<open>null\<close> entry throws.
\<close>

fun js_map :: "('a \<Rightarrow> js_error + 'b) \<Rightarrow> 'a list \<Rightarrow> js_error + 'b list" where
  "js_map f [] = Inr []"
| "js_map f (x # xs) =
     (case f x of
        Inl e \<Rightarrow> Inl e
      | Inr y \<Rightarrow> (case js_map f xs of Inl e \<Rightarrow> Inl e | Inr ys \<Rightarrow> Inr (y # ys)))"

definition hit_source :: "string \<Rightarrow> js_value \<Rightarrow> js_error + AnySource" where
  "hit_source snippet_key r =
     (case js_get r ''title'' of
        Inl e \<Rightarrow> Inl e
      | Inr ti \<Rightarrow>
          (case js_get r ''url'' of
             Inl e \<Rightarrow> Inl e
           | Inr u \<Rightarrow>
               (case js_get r snippet_key of
                  Inl e \<Rightarrow> Inl e
                | Inr sn \<Rightarrow> Inr \<lparr>any_title = ti, any_uri = u, any_snippet = sn\<rparr>)))"

definition map_results :: "js_value \<Rightarrow> string \<Rightarrow> js_error + AnySource list" where
  "map_results results snippet_key =
     (case js_or results (Arr []) of
        Arr rs \<Rightarrow> js_map (hit_source snippet_key) rs
      | _ \<Rightarrow> Inl (TypeError ''(intermediate value).map is not a function''))"

definition tavily_url :: string where
  "tavily_url = ''https://api.tavily.com/search''"

definition tavily_options :: "string \<Rightarrow> string \<Rightarrow> RequestInit" where
  "tavily_options key query =
     \<lparr>ri_method = Some ''POST'',
      ri_headers = [(''Content-Type'', ''application/json'')],
      ri_body = Some (Obj
        [(''api_key'', Str key),
         (''query'', Str query),
         (''search_depth'', Str ''basic''),
         (''include_answer'', Bool False),
         (''max_results'', Num 3)]),
      ri_signal = None\<rparr>"

definition fetchTavily :: "env \<Rightarrow> string \<Rightarrow> AnySource list io" where
  "fetchTavily E query =
     io_bind io_config (\<lambda>cfg.
     if tavilyKey cfg = [] then io_return []
     else
       io_catch
         (io_bind (safeFetch E tavily_url (tavily_options (tavilyKey cfg) query)) (\<lambda>result.
          if \<not> fr_ok result \<or> \<not> truthy (fr_data result) then io_return []
          else (\<lambda>w. (map_results (js_get_opt (fr_data result) ''results'') ''content'', w))))
         (\<lambda>e. io_return []))"

definition brave_url :: "env \<Rightarrow> string \<Rightarrow> string" where
  "brave_url E query =
     URL_toString E ''https://api.search.brave.com/res/v1/web/search''
       [(''q'', query), (''count'', ''3'')]"

definition brave_options :: "string \<Rightarrow> RequestInit" where
  "brave_options key =
     \<lparr>ri_method = None,
      ri_headers = [(''Accept'', ''application/json''), (''X-Subscription-Token'', key)],
      ri_body = None,
      ri_signal = None\<rparr>"

definition fetchBrave :: "env \<Rightarrow> string \<Rightarrow> AnySource list io" where
  "fetchBrave E query =
     io_bind io_config (\<lambda>cfg.
     if braveKey cfg = [] then io_return []
     else
       io_catch
         (io_bind (safeFetch E (brave_url E query) (brave_options (braveKey cfg))) (\<lambda>result.
          if \<not> fr_ok result then io_return []
          else if \<not> truthy (fr_data result) then io_return []
          else (\<lambda>w. (map_results (js_get_opt (js_get_opt (fr_data result) ''web'') ''results'')
                         ''description'', w))))
         (\<lambda>e. io_return []))"

definition search_base_instruction :: string where
  "search_base_instruction =
     ''You are a sophisticated, full-featured search assistant.'' @ [CHR 0x0A]
     @ ''      CORE INSTRUCTIONS:'' @ [CHR 0x0A]
     @ ''      1. Synthesize findings into a clear, structured Markdown report.'' @ [CHR 0x0A]
     @ ''      2. Citations: When citing a source, include the URL in Markdown format like [Source Name](URL).''
     @ [CHR 0x0A] @ ''      RICH CONTENT RENDERING RULES:'' @ [CHR 0x0A]
     @ ''      1. Diagrams: Use Mermaid with strict quoting rules.'' @ [CHR 0x0A]
     @ ''      2. Code: Proper Markdown blocks.'' @ [CHR 0x0A] @ ''      3. Math: LaTeX.''
     @ [CHR 0x0A] @ ''      4. Tables: Markdown tables.'' @ [CHR 0x0A] @ ''      ''"

fun join :: "string \<Rightarrow> string list \<Rightarrow> string" where
  "join sep [] = []"
| "join sep [x] = x"
| "join sep (x # y # ys) = x @ sep @ join sep (y # ys)"

definition source_line :: "env \<Rightarrow> AnySource \<Rightarrow> string" where
  "source_line E d =
     ''['' @ template E (any_title d) @ '']('' @ template E (any_uri d) @ ''): ''
     @ template E (any_snippet d)"

definition search_instruction ::
  "env \<Rightarrow> WikiData option \<Rightarrow> AnySource list \<Rightarrow> AnySource list \<Rightarrow> string" where
  "search_instruction E wikiData tavilyData braveData =
     search_base_instruction
     @ (case wikiData of
          Some wd \<Rightarrow> [CHR 0x0A, CHR 0x0A] @ ''Additional Verified Context from Wikipedia: ''
                     @ [CHR 0x22] @ template E (wiki_content wd) @ [CHR 0x22]
        | None \<Rightarrow> [])
     @ (if tavilyData \<noteq> []
        then [CHR 0x0A, CHR 0x0A] @ ''Additional Context from Tavily: ''
             @ join [CHR 0x0A] (map (source_line E) tavilyData)
        else [])
     @ (if braveData \<noteq> []
        then [CHR 0x0A, CHR 0x0A] @ ''Additional Context from Brave: ''
             @ join [CHR 0x0A] (map (source_line E) braveData)
        else [])"

definition search_request ::
  "env \<Rightarrow> string \<Rightarrow> string \<Rightarrow> WikiData option \<Rightarrow> AnySource list \<Rightarrow> AnySource list \<Rightarrow> js_value" where
  "search_request E query model wikiData tavilyData braveData =
     Obj [(''model'', Str model),
          (''contents'', Str query),
          (''config'', Obj [(''tools'', Arr [Obj [(''googleSearch'', Obj [])]]),
                            (''systemInstruction'',
                               Str (search_instruction E wikiData tavilyData braveData))])]"

text \<open>\<^verbatim>\<open>response.candidates?.[0]?.groundingMetadata?.groundingChunks || []\<close>\<close>

definition response_groundingChunks :: "GenerateContentResponse \<Rightarrow> GroundingChunk list" where
  "response_groundingChunks response =
     (case candidates response of
        Some (c # _) \<Rightarrow>
          (case groundingMetadata c of
             Some gm \<Rightarrow> (case groundingChunks gm of Some chunks \<Rightarrow> chunks | None \<Rightarrow> [])
           | None \<Rightarrow> [])
      | _ \<Rightarrow> [])"

definition chunk_source :: "GroundingChunk \<Rightarrow> SearchSource option" where
  "chunk_source chunk =
     (case web chunk of
        Some wb \<Rightarrow>
          (case (web_uri wb, web_title wb) of
             (Some u, Some t) \<Rightarrow>
               (if u \<noteq> [] \<and> t \<noteq> [] then Some \<lparr>title = t, uri = u, snippet = Some []\<rparr>
                else None)
           | _ \<Rightarrow> None)
      | None \<Rightarrow> None)"

definition grounding_sources :: "GroundingChunk list \<Rightarrow> SearchSource list" where
  "grounding_sources chunks = List.map_filter chunk_source chunks"

text \<open>
  The link pattern \<^verbatim>\<open>/\[([^\]]+)\]\((https?:\/\/[^\)]+)\)/g\<close>.  Both character classes
  are followed by the character they exclude, so a greedy run can only end at the
  first such character; a match at a position is therefore unique.  \<open>match_link\<close>
  gives the two groups and the text after the match.
\<close>

definition match_link :: "string \<Rightarrow> (string \<times> string \<times> string) option" where
  "match_link s =
     (case s of
        [] \<Rightarrow> None
      | c # r \<Rightarrow>
          (let label = takeWhile (\<lambda>x. x \<noteq> CHR '']'') r;
               r1 = dropWhile (\<lambda>x. x \<noteq> CHR '']'') r;
               scheme = (if startsWith (drop 2 r1) ''https://'' then ''https://'' else ''http://'');
               r2 = drop (2 + length scheme) r1;
               rest = takeWhile (\<lambda>x. x \<noteq> CHR '')'') r2;
               r3 = dropWhile (\<lambda>x. x \<noteq> CHR '')'') r2
           in if c = CHR ''['' \<and> label \<noteq> [] \<and> startsWith r1 '']('' \<and> startsWith (drop 2 r1) scheme
                 \<and> rest \<noteq> [] \<and> r3 \<noteq> []
              then Some (label, scheme @ rest, tl r3)
              else None))"

text \<open>The \<^verbatim>\<open>exec\<close> loop: the leftmost match, then on from its end.\<close>

function extract_links :: "string \<Rightarrow> (string \<times> string) list" where
  "extract_links s =
     (case s of
        [] \<Rightarrow> []
      | c # cs \<Rightarrow>
          (case match_link s of
             Some (label, url, r) \<Rightarrow> (label, url) # extract_links r
           | None \<Rightarrow> extract_links cs))"
  by pat_completeness auto
termination
proof (relation "measure length")
  show "wf (measure length)"
    by simp
next
  fix s :: string and c cs m label ur url r
  assume s: "s = c # cs" and m: "match_link s = Some m" "(label, ur) = m" "(url, r) = ur"
  define r1 where "r1 = dropWhile (\<lambda>x. x \<noteq> CHR '']'') cs"
  define scheme :: string
    where "scheme = (if startsWith (drop 2 r1) ''https://'' then ''https://'' else ''http://'')"
  define r2 where "r2 = drop (2 + length scheme) r1"
  define r3 where "r3 = dropWhile (\<lambda>x. x \<noteq> CHR '')'') r2"
  from m s have r: "r = tl r3" and ne: "r3 \<noteq> []"
    by (auto simp: match_link_def Let_def r1_def scheme_def r2_def r3_def split: if_splits)
  have "length r3 \<le> length r2"
    unfolding r3_def by (rule length_dropWhile_le)
  moreover have "length r2 \<le> length r1"
    unfolding r2_def by simp
  moreover have "length r1 \<le> length cs"
    unfolding r1_def by (rule length_dropWhile_le)
  moreover from ne have "length (tl r3) < length r3"
    by (cases r3) simp_all
  ultimately show "(r, s) \<in> measure length"
    using r s by simp
next
  fix s :: string and c cs
  assume "s = c # cs"
  then show "(cs, s) \<in> measure length"
    by simp
qed

declare extract_links.simps [simp del]

definition link_sources :: "string \<Rightarrow> SearchSource list" where
  "link_sources t = map (\<lambda>(label, url). \<lparr>title = label, uri = url, snippet = None\<rparr>) (extract_links t)"

definition push :: "'a list \<Rightarrow> 'a \<Rightarrow> 'a list" where
  "push xs x = xs @ [x]"

definition unshift :: "'a \<Rightarrow> 'a list \<Rightarrow> 'a list" where
  "unshift x xs = x # xs"

text \<open>
  The building of the raw list and the deduplication loop, first with every entry of
  the declared type \<open>SearchSource\<close>.
\<close>

definition rawSources ::
  "WikiData option \<Rightarrow> SearchSource list \<Rightarrow> SearchSource list \<Rightarrow> GroundingChunk list \<Rightarrow> string
     \<Rightarrow> SearchSource list" where
  "rawSources wikiData tavilyData braveData chunks t =
     (let raw0 = grounding_sources chunks;
          raw1 = foldl push raw0 (link_sources t);
          raw2 = (case wikiData of
                    Some wd \<Rightarrow> unshift \<lparr>title = wiki_title wd, uri = wiki_uri wd, snippet = None\<rparr> raw1
                  | None \<Rightarrow> raw1);
          raw3 = foldl push raw2 tavilyData
      in foldl push raw3 braveData)"

definition base_uri :: "SearchSource \<Rightarrow> string" where
  "base_uri s = split_first CHR ''#'' (uri s)"

definition clean_step ::
  "SearchSource list \<times> string set \<Rightarrow> SearchSource \<Rightarrow> SearchSource list \<times> string set" where
  "clean_step acc s =
     (case acc of (cleanSources, seenUris) \<Rightarrow>
        (let u = base_uri s
         in if u \<noteq> [] \<and> \<not> str_includes u ''vertexaisearch'' \<and> u \<notin> seenUris
            then (push cleanSources s, insert u seenUris)
            else (cleanSources, seenUris)))"

definition cleanSources :: "SearchSource list \<Rightarrow> SearchSource list" where
  "cleanSources raw = fst (foldl clean_step ([], {}) raw)"

definition answer_text :: "GenerateContentResponse \<Rightarrow> string" where
  "answer_text response =
     (case response_text response of
        Some t \<Rightarrow> str_or t ''No result found.''
      | None \<Rightarrow> ''No result found.'')"

text \<open>
  The same lines as they run: the entries of the two web-search adapters are pushed as
  they came, and \<^verbatim>\<open>s.uri.split('#')[0]\<close> throws on a URI that is not a string.
\<close>

definition rawSources_any ::
  "WikiData option \<Rightarrow> AnySource list \<Rightarrow> AnySource list \<Rightarrow> GroundingChunk list \<Rightarrow> string
     \<Rightarrow> AnySource list" where
  "rawSources_any wikiData tavilyData braveData chunks t =
     (let raw0 = map any_source (grounding_sources chunks);
          raw1 = foldl push raw0 (map any_source (link_sources t));
          raw2 = (case wikiData of
                    Some wd \<Rightarrow>
                      unshift (any_source \<lparr>title = wiki_title wd, uri = wiki_uri wd, snippet = None\<rparr>) raw1
                  | None \<Rightarrow> raw1);
          raw3 = foldl push raw2 tavilyData
      in foldl push raw3 braveData)"

definition uri_base :: "js_value \<Rightarrow> js_error + string" where
  "uri_base v =
     (case v of
        Str u \<Rightarrow> Inr (split_first CHR ''#'' u)
      | Undefined \<Rightarrow>
          Inl (TypeError (''Cannot read properties of undefined (reading ''
                          @ [CHR 0x27] @ ''split'' @ [CHR 0x27] @ '')''))
      | Null \<Rightarrow>
          Inl (TypeError (''Cannot read properties of null (reading ''
                          @ [CHR 0x27] @ ''split'' @ [CHR 0x27] @ '')''))
      | _ \<Rightarrow> Inl (TypeError ''s.uri.split is not a function''))"

definition clean_step_any ::
  "js_error + AnySource list \<times> string set \<Rightarrow> AnySource
     \<Rightarrow> js_error + AnySource list \<times> string set" where
  "clean_step_any acc s =
     (case acc of
        Inl e \<Rightarrow> Inl e
      | Inr (cleaned, seenUris) \<Rightarrow>
          (case uri_base (any_uri s) of
             Inl e \<Rightarrow> Inl e
           | Inr u \<Rightarrow>
               if u \<noteq> [] \<and> \<not> str_includes u ''vertexaisearch'' \<and> u \<notin> seenUris
               then Inr (push cleaned s, insert u seenUris)
               else Inr (cleaned, seenUris)))"

definition cleanSources_any :: "AnySource list \<Rightarrow> js_error + AnySource list" where
  "cleanSources_any raw =
     (case foldl clean_step_any (Inr ([], {})) raw of
        Inl e \<Rightarrow> Inl e
      | Inr (cleaned, seenUris) \<Rightarrow> Inr cleaned)"

definition search :: "env \<Rightarrow> string \<Rightarrow> string \<Rightarrow> SearchResult io" where
  "search E query model =
     io_catch
       (io_bind (io_settled (fetchWikipedia E query)) (\<lambda>wikiResult.
        io_bind (io_settled (fetchTavily E query)) (\<lambda>tavilyResult.
        io_bind (io_settled (fetchBrave E query)) (\<lambda>braveResult.
        let wikiData = (case wikiResult of Inr v \<Rightarrow> v | Inl _ \<Rightarrow> None);
            tavilyData = (case tavilyResult of Inr v \<Rightarrow> v | Inl _ \<Rightarrow> []);
            braveData = (case braveResult of Inr v \<Rightarrow> v | Inl _ \<Rightarrow> [])
        in io_bind (getAiClient E) (\<lambda>ai.
           let request = search_request E query model wikiData tavilyData braveData
           in io_bind (io_call (GenerateContent ai request) (models_generateContent E ai request))
                (\<lambda>response.
           let t = answer_text response
           in io_bind (\<lambda>w. (cleanSources_any
                               (rawSources_any wikiData tavilyData braveData
                                  (response_groundingChunks response) t), w)) (\<lambda>cleaned.
              io_return \<lparr>result_text = t, sources = cleaned\<rparr>)))))))
       (\<lambda>e. io_return \<lparr>result_text = ''**Search Unavailable**: '' @ err_message e, sources = []\<rparr>)"

section \<open>Specification-side notions\<close>

text \<open>
  What the deduplication is compared with: a base URI is retained when it is not empty
  and does not show the redirect host; \<open>first_seen\<close> keeps, from left to right, the
  first entry of each retained key not seen before.  \<open>any_base\<close> is the base URI of a
  run-time entry whose URI is a string.
\<close>

definition retained :: "string \<Rightarrow> bool" where
  "retained u = (u \<noteq> [] \<and> \<not> str_includes u ''vertexaisearch'')"

fun first_seen :: "('a \<Rightarrow> string) \<Rightarrow> string set \<Rightarrow> 'a list \<Rightarrow> 'a list" where
  "first_seen key seen [] = []"
| "first_seen key seen (s # ss) =
     (if retained (key s) \<and> key s \<notin> seen
      then s # first_seen key (insert (key s) seen) ss
      else first_seen key seen ss)"

definition any_base :: "AnySource \<Rightarrow> string" where
  "any_base s = (case any_uri s of Str u \<Rightarrow> split_first CHR ''#'' u | _ \<Rightarrow> [])"

definition string_uri :: "AnySource \<Rightarrow> bool" where
  "string_uri s = (case any_uri s of Str u \<Rightarrow> True | _ \<Rightarrow> False)"

text \<open>
  What a run of the OCR helper asks of the worker; what \<open>safeFetch\<close> resolves with;
  and what each search adapter contributes to \<open>search\<close>: nothing when it is skipped
  or fails.  \<open>search_client\<close> is the outcome of obtaining the SDK client,
  \<open>synthesis_request\<close> the one request of the synthesis step, \<open>search_failed\<close> and
  \<open>search_answer\<close> what \<open>search\<close> returns when that step fails and when it succeeds.
\<close>

definition ocr_events :: "env \<Rightarrow> string \<Rightarrow> string \<Rightarrow> event list" where
  "ocr_events E img lang =
     (let l = getTesseractLang lang
      in OcrCreateWorker l #
         (case createWorker E l of
            Inl _ \<Rightarrow> []
          | Inr _ \<Rightarrow>
              OcrRecognize l img #
              (case worker_recognize E l img of Inl _ \<Rightarrow> [] | Inr _ \<Rightarrow> [OcrTerminate l])))"

definition safeFetch_result :: "env \<Rightarrow> string \<Rightarrow> RequestInit \<Rightarrow> js_error + FetchResult" where
  "safeFetch_result E url options =
     (let failed = (\<lambda>error. if err_name error = ''AbortError'' then Inl error
                             else Inr \<lparr>fr_ok = False, fr_status = 0, fr_data = Null, fr_text = []\<rparr>)
      in case fetch E url options of
           Inl error \<Rightarrow> failed error
         | Inr response \<Rightarrow>
             (case resp_text response of
                Inl error \<Rightarrow> failed error
              | Inr t \<Rightarrow>
                  Inr \<lparr>fr_ok = resp_ok response, fr_status = resp_status response,
                       fr_data = (if t \<noteq> [] then (case JSON_parse E t of Some d \<Rightarrow> d | None \<Rightarrow> Null)
                                  else Null),
                       fr_text = t\<rparr>))"

definition wiki_contribution :: "env \<Rightarrow> string \<Rightarrow> WikiData option" where
  "wiki_contribution E query = (case wikipedia_outcome E query of Inr v \<Rightarrow> v | Inl _ \<Rightarrow> None)"

definition tavily_contribution :: "env \<Rightarrow> ApiConfig \<Rightarrow> string \<Rightarrow> AnySource list" where
  "tavily_contribution E cfg query =
     (if tavilyKey cfg = [] then []
      else case safeFetch_result E tavily_url (tavily_options (tavilyKey cfg) query) of
             Inl e \<Rightarrow> []
           | Inr result \<Rightarrow>
               if \<not> fr_ok result \<or> \<not> truthy (fr_data result) then []
               else (case map_results (js_get_opt (fr_data result) ''results'') ''content'' of
                       Inl e \<Rightarrow> []
                     | Inr hits \<Rightarrow> hits))"

definition brave_contribution :: "env \<Rightarrow> ApiConfig \<Rightarrow> string \<Rightarrow> AnySource list" where
  "brave_contribution E cfg query =
     (if braveKey cfg = [] then []
      else case safeFetch_result E (brave_url E query) (brave_options (braveKey cfg)) of
             Inl e \<Rightarrow> []
           | Inr result \<Rightarrow>
               if \<not> fr_ok result \<or> \<not> truthy (fr_data result) then []
               else (case map_results (js_get_opt (js_get_opt (fr_data result) ''web'') ''results'')
                            ''description'' of
                       Inl e \<Rightarrow> []
                     | Inr hits \<Rightarrow> hits))"

definition search_client :: "env \<Rightarrow> world \<Rightarrow> js_error + GoogleGenAI" where
  "search_client E w = fst (getAiClient E w)"

definition synthesis_request :: "env \<Rightarrow> world \<Rightarrow> string \<Rightarrow> string \<Rightarrow> js_value" where
  "synthesis_request E w query model =
     search_request E query model (wiki_contribution E query)
       (tavily_contribution E (activeConfig w) query) (brave_contribution E (activeConfig w) query)"

definition search_failed :: "js_error \<Rightarrow> SearchResult" where
  "search_failed e = \<lparr>result_text = ''**Search Unavailable**: '' @ err_message e, sources = []\<rparr>"

definition search_raw :: "env \<Rightarrow> world \<Rightarrow> string \<Rightarrow> GenerateContentResponse \<Rightarrow> AnySource list" where
  "search_raw E w query response =
     rawSources_any (wiki_contribution E query) (tavily_contribution E (activeConfig w) query)
       (brave_contribution E (activeConfig w) query)
       (response_groundingChunks response) (answer_text response)"

definition search_answer ::
  "env \<Rightarrow> world \<Rightarrow> string \<Rightarrow> GenerateContentResponse \<Rightarrow> SearchResult" where
  "search_answer E w query response =
     (case cleanSources_any (search_raw E w query response) of
        Inl e \<Rightarrow> search_failed e
      | Inr cleaned \<Rightarrow> \<lparr>result_text = answer_text response, sources = cleaned\<rparr>)"

text \<open>
  The key \<open>getAiClient\<close> builds a client with, and the states in which a cached client
  is one the SDK has built from the current key (the state at load time is one, and
  \<open>updateServiceConfig\<close> and \<open>getAiClient\<close> lead from such states to such states).
\<close>

definition gemini_key :: "env \<Rightarrow> ApiConfig \<Rightarrow> string option" where
  "gemini_key E cfg = (if geminiKey cfg \<noteq> [] then Some (geminiKey cfg) else process_env_API_KEY E)"

definition client_current :: "env \<Rightarrow> world \<Rightarrow> bool" where
  "client_current E w =
     (case aiInstance w of
        None \<Rightarrow> True
      | Some ai \<Rightarrow>
          ai = GoogleGenAI (gemini_key E (activeConfig w))
          \<and> new_GoogleGenAI E (gemini_key E (activeConfig w)) = Inr ())"

section \<open>Concrete inputs\<close>

text \<open>
  The compile-time configuration of \<^verbatim>\<open>constants.ts\<close>, the module's state at load time,
  and an environment in which every outside call fails.
\<close>

definition API_CONFIG :: ApiConfig where
  "API_CONFIG =
     \<lparr>deeplxEndpoint = ''https://api.deeplx.org/translate'',
      openaiBaseUrl = ''https://api.openai.com/v1'',
      openaiKey = [],
      geminiBaseUrl = [],
      geminiKey = [],
      tavilyKey = [],
      braveKey = []\<rparr>"

definition initial_world :: world where
  "initial_world = \<lparr>activeConfig = API_CONFIG, aiInstance = None, trace = []\<rparr>"

definition offline :: env where
  "offline =
     \<lparr>fetch = (\<lambda>url options. Inl (JsError ''TypeError'' ''Failed to fetch'')),
      JSON_parse = (\<lambda>t. None),
      to_string = (\<lambda>v. ''[object Object]''),
      process_env_API_KEY = None,
      createWorker = (\<lambda>lang. Inl (JsError ''Error'' ''Network error while fetching language data'')),
      worker_recognize = (\<lambda>lang img. Inl (JsError ''Error'' ''no worker'')),
      worker_terminate = (\<lambda>lang. Inr ()),
      new_GoogleGenAI = (\<lambda>key. Inr ()),
      models_generateContent = (\<lambda>ai request. Inl (JsError ''Error'' ''Failed to fetch'')),
      chats_sendMessage = (\<lambda>ai params message. Inl (JsError ''Error'' ''Failed to fetch'')),
      wikipedia_outcome = (\<lambda>query. Inl (JsError ''TypeError'' ''Failed to fetch'')),
      URL_toString = (\<lambda>base params. base @ ''?''
                        @ join ''&'' (map (\<lambda>(k, v). k @ ''='' @ v) params))\<rparr>"

definition sample_settings :: "int \<Rightarrow> ChatSettings" where
  "sample_settings k = \<lparr>temperature = 7 / 10, maxContext = k, maxTurns = 20, systemInstruction = None\<rparr>"

definition sample_message :: "string \<Rightarrow> role \<Rightarrow> string \<Rightarrow> ChatMessage" where
  "sample_message ident r t = \<lparr>m_id = ident, m_role = r, m_content = t, m_timestamp = 0, m_image = None\<rparr>"

definition sample_messages :: "ChatMessage list" where
  "sample_messages =
     [sample_message ''1'' User ''Hi'', sample_message ''2'' Assistant ''Hello'',
      sample_message ''3'' User ''Bye'']"

definition keyed_world :: world where
  "keyed_world = initial_world\<lparr>activeConfig := API_CONFIG\<lparr>openaiKey := ''sk-test''\<rparr>\<rparr>"

definition history_state :: TranslationState where
  "history_state =
     \<lparr>ts_sourceText = ''Hello'', ts_translatedText = ''Bonjour'', ts_isLoading = False,
      ts_error = None, ts_sourceLang = ''auto'', ts_targetLang = ''FR'',
      ts_selectedProvider = Gemini, ts_selectedModel = ''gemini-2.0-flash'',
      ts_industry = [], ts_attachedImage = None, ts_tempImage = None\<rparr>"

definition old_item :: "nat \<Rightarrow> bool \<Rightarrow> HistoryItem" where
  "old_item n fav =
     \<lparr>h_id = show_nat n, h_sourceText = ''Hello'', h_translatedText = ''Bonjour'',
      h_sourceLang = ''auto'', h_targetLang = ''FR'', h_provider = Gemini,
      h_timestamp = int n, isFavorite = fav, wasImage = False\<rparr>"

text \<open>Fifty entries, newest first; the oldest one is a favourite.\<close>

definition full_history :: "HistoryItem list" where
  "full_history = map (\<lambda>n. old_item n False) (rev [1..<50]) @ [old_item 0 True]"





definition abort_error :: js_error where
  "abort_error = JsError ''AbortError'' ''signal is aborted without reason''"

definition aborting :: env where
  "aborting = offline\<lparr>fetch := (\<lambda>url options. Inl abort_error)\<rparr>"

definition hello_params :: "string \<Rightarrow> string option \<Rightarrow> string \<Rightarrow> TranslateParams" where
  "hello_params t img model =
     \<lparr>p_text = t, p_sourceLang = ''JA'', p_targetLang = ''ZH'', p_imageBase64 = img,
      p_model = model, p_industry = None\<rparr>"


definition blank_scan :: env where
  "blank_scan =
     offline\<lparr>createWorker := (\<lambda>lang. Inr ()),
             worker_recognize := (\<lambda>lang img. Inr [CHR 0x20, CHR 0x0A]),
             worker_terminate := (\<lambda>lang. Inr ())\<rparr>"

text \<open>A conversation whose last message carries an image, and a state with both chat keys.\<close>

definition picture_messages :: "ChatMessage list" where
  "picture_messages =
     [sample_message ''1'' User ''Hi'', sample_message ''2'' Assistant ''Hello'',
      (sample_message ''3'' User ''What is this?'')\<lparr>m_image := Some ''data:image/png;base64,AAAA''\<rparr>]"

definition chat_world :: world where
  "chat_world =
     initial_world\<lparr>activeConfig := API_CONFIG\<lparr>openaiKey := ''sk-test'', geminiKey := ''g-test''\<rparr>\<rparr>"












section \<open>Properties\<close>

lemmas io_defs =
  io_return_def io_throw_def io_bind_def io_catch_def io_call_def io_config_def io_settled_def

lemma io_bind_Inr: "m w = (Inr x, w') \<Longrightarrow> io_bind m f w = f x w'"
  by (simp add: io_bind_def)

lemma io_bind_Inl: "m w = (Inl e, w') \<Longrightarrow> io_bind m f w = (Inl e, w')"
  by (simp add: io_bind_def)

lemma io_catch_Inr: "m w = (Inr x, w') \<Longrightarrow> io_catch m h w = (Inr x, w')"
  by (simp add: io_catch_def)

lemma io_catch_Inl: "m w = (Inl e, w') \<Longrightarrow> io_catch m h w = h e w'"
  by (simp add: io_catch_def)

lemma js_slice_0: "0 \<le> k \<Longrightarrow> js_slice 0 k xs = take (nat k) xs"
  by (simp add: js_slice_def js_index_def Let_def min_def)

lemma js_slice_from_neg:
  "1 \<le> k \<Longrightarrow> k < int (length xs) \<Longrightarrow> js_slice_from (- k) xs = drop (length xs - nat k) xs"
  by (simp add: js_slice_from_def js_index_def nat_diff_distrib')

lemma js_slice_from_zero: "js_slice_from 0 xs = xs"
  by (simp add: js_slice_from_def js_index_def)

lemma js_slice_from_all: "int (length xs) \<le> k \<Longrightarrow> js_slice_from (- k) xs = xs"
  by (simp add: js_slice_from_def js_index_def)

lemma js_slice_butlast: "js_slice 0 (- 1) xs = butlast xs"
  by (cases "xs = []") (simp_all add: js_slice_def js_index_def Let_def butlast_conv_take nat_diff_distrib')

lemma safeFetch_world:
  "snd (safeFetch E url options w) = w\<lparr>trace := trace w @ [NetFetch url options]\<rparr>"
  by (cases "fetch E url options"; cases "resp_text (projr (fetch E url options))")
     (simp_all add: safeFetch_def io_defs Let_def)

lemma openAICompletion_world:
  "snd (openAICompletion E baseUrl apiKey model messages t signal w) =
     w\<lparr>trace := trace w @
        [NetFetch (completion_url baseUrl) (completion_options apiKey model messages t signal)]\<rparr>"
proof -
  obtain r w' where r: "safeFetch E (completion_url baseUrl)
      (completion_options apiKey model messages t signal) w = (r, w')"
    by (cases "safeFetch E (completion_url baseUrl) (completion_options apiKey model messages t signal) w")
  with safeFetch_world [of E "completion_url baseUrl" "completion_options apiKey model messages t signal" w]
  have w': "w' = w\<lparr>trace := trace w @
        [NetFetch (completion_url baseUrl) (completion_options apiKey model messages t signal)]\<rparr>"
    by simp
  show ?thesis
    using r w' by (cases r) (simp_all add: openAICompletion_def io_bind_def io_throw_def io_return_def)
qed

lemma chat_openai_request:
  assumes "openaiKey (activeConfig w) \<noteq> []"
  shows "snd (chat E messages OpenAI model settings signal w) =
         w\<lparr>trace := trace w @
           [NetFetch (completion_url (openaiBaseUrl (activeConfig w)))
              (completion_options (openaiKey (activeConfig w)) model
                 (openAIMessages (chat_instruction settings) (contextMessages settings messages))
                 (temperature settings) signal)]\<rparr>"
proof -
  let ?call = "openAICompletion E (openaiBaseUrl (activeConfig w)) (openaiKey (activeConfig w)) model
                 (openAIMessages (chat_instruction settings) (contextMessages settings messages))
                 (temperature settings) signal"
  obtain r w' where r: "?call w = (r, w')"
    by (cases "?call w")
  with openAICompletion_world [of E "openaiBaseUrl (activeConfig w)" "openaiKey (activeConfig w)" model
      "openAIMessages (chat_instruction settings) (contextMessages settings messages)"
      "temperature settings" signal w]
  have "w' = w\<lparr>trace := trace w @
           [NetFetch (completion_url (openaiBaseUrl (activeConfig w)))
              (completion_options (openaiKey (activeConfig w)) model
                 (openAIMessages (chat_instruction settings) (contextMessages settings messages))
                 (temperature settings) signal)]\<rparr>"
    by simp
  then show ?thesis
    using assms r
    by (cases r; cases "first_choice_content (projr r)")
       (simp_all add: chat_def Let_def io_bind_def io_throw_def io_return_def io_catch_def io_config_def)
qed

lemma chat_gemini_request:
  assumes "contextMessages settings messages \<noteq> []" and "aiInstance w = Some ai"
  shows "snd (chat E messages Gemini model settings signal w) =
         w\<lparr>trace := trace w @
           [ChatSendMessage ai
              (gemini_chat_config model settings (contextMessages settings messages))
              (gemini_chat_message (last (contextMessages settings messages)))]\<rparr>"
  using assms
  by (cases "chats_sendMessage E ai
               (gemini_chat_config model settings (contextMessages settings messages))
               (gemini_chat_message (last (contextMessages settings messages)))")
     (simp_all add: chat_def getAiClient_def Let_def io_defs)

lemma chat_context_only:
  "contextMessages settings ms = contextMessages settings ms' \<Longrightarrow>
   chat E ms provider model settings signal = chat E ms' provider model settings signal"
  by (simp add: chat_def)

lemma chat_gemini_world:
  assumes "contextMessages settings messages \<noteq> []"
  shows "snd (chat E messages Gemini model settings signal w) =
     (let create = gemini_chat_config model settings (contextMessages settings messages);
          message = gemini_chat_message (last (contextMessages settings messages));
          key = gemini_key E (activeConfig w)
      in case aiInstance w of
           Some ai \<Rightarrow> w\<lparr>trace := trace w @ [ChatSendMessage ai create message]\<rparr>
         | None \<Rightarrow>
             (case new_GoogleGenAI E key of
                Inl e \<Rightarrow> w\<lparr>trace := trace w @ [NewGoogleGenAI key]\<rparr>
              | Inr u \<Rightarrow>
                  w\<lparr>aiInstance := Some (GoogleGenAI key),
                    trace := trace w @ [NewGoogleGenAI key,
                                        ChatSendMessage (GoogleGenAI key) create message]\<rparr>))"
proof (cases "aiInstance w")
  case (Some ai)
  with assms show ?thesis
    by (cases "chats_sendMessage E ai
               (gemini_chat_config model settings (contextMessages settings messages))
               (gemini_chat_message (last (contextMessages settings messages)))")
       (simp_all add: chat_def getAiClient_def Let_def io_defs)
next
  case None
  show ?thesis
  proof (cases "new_GoogleGenAI E (gemini_key E (activeConfig w))")
    case (Inl e)
    with None assms show ?thesis
      by (simp add: chat_def getAiClient_def gemini_key_def Let_def io_defs)
  next
    case (Inr u)
    with None assms show ?thesis
      by (cases "chats_sendMessage E (GoogleGenAI (gemini_key E (activeConfig w)))
               (gemini_chat_config model settings (contextMessages settings messages))
               (gemini_chat_message (last (contextMessages settings messages)))")
         (simp_all add: chat_def getAiClient_def gemini_key_def Let_def io_defs)
  qed
qed

lemma openai_message_explicit:
  "openai_message m =
     Obj [(''role'', Str (case m_role m of User \<Rightarrow> ''user'' | Assistant \<Rightarrow> ''assistant'')),
          (''content'',
             (case m_image m of
                Some img \<Rightarrow>
                  if img \<noteq> []
                  then Arr [Obj [(''type'', Str ''text''), (''text'', Str (m_content m))],
                            Obj [(''type'', Str ''image_url''),
                                 (''image_url'', Obj [(''url'', Str img)])]]
                  else Str (m_content m)
              | None \<Rightarrow> Str (m_content m)))]"
  by (cases "m_role m") (simp_all add: openai_message_def Let_def split: option.splits)

lemma gemini_parts_explicit:
  "gemini_parts m =
     (case m_image m of
        Some img \<Rightarrow>
          (if img \<noteq> []
           then (case match_data_uri img of
                   Some (mimeType, d) \<Rightarrow>
                     [Obj [(''inlineData'', Obj [(''mimeType'', Str mimeType), (''data'', Str d)])]]
                 | None \<Rightarrow> [])
           else [])
      | None \<Rightarrow> [])
     @ [Obj [(''text'', Str (m_content m))]]"
  by (simp add: gemini_parts_def inline_data_def split: option.splits)

lemma gemini_turn_explicit:
  "gemini_turn m =
     Obj [(''role'', Str (case m_role m of User \<Rightarrow> ''user'' | Assistant \<Rightarrow> ''model'')),
          (''parts'', Arr (gemini_parts m))]"
  by (cases "m_role m") (simp_all add: gemini_turn_def)

lemma openai_message_fun:
  "openai_message =
     (\<lambda>m. Obj [(''role'', Str (case m_role m of User \<Rightarrow> ''user'' | Assistant \<Rightarrow> ''assistant'')),
               (''content'',
                  (case m_image m of
                     Some img \<Rightarrow>
                       if img \<noteq> []
                       then Arr [Obj [(''type'', Str ''text''), (''text'', Str (m_content m))],
                                 Obj [(''type'', Str ''image_url''),
                                      (''image_url'', Obj [(''url'', Str img)])]]
                       else Str (m_content m)
                   | None \<Rightarrow> Str (m_content m)))])"
  by (rule ext) (rule openai_message_explicit)

lemma gemini_parts_fun:
  "gemini_parts =
     (\<lambda>m. (case m_image m of
              Some img \<Rightarrow>
                (if img \<noteq> []
                 then (case match_data_uri img of
                         Some (mimeType, d) \<Rightarrow>
                           [Obj [(''inlineData'', Obj [(''mimeType'', Str mimeType), (''data'', Str d)])]]
                       | None \<Rightarrow> [])
                 else [])
            | None \<Rightarrow> [])
           @ [Obj [(''text'', Str (m_content m))]])"
  by (rule ext) (rule gemini_parts_explicit)

lemma gemini_turn_fun:
  "gemini_turn =
     (\<lambda>m. Obj [(''role'', Str (case m_role m of User \<Rightarrow> ''user'' | Assistant \<Rightarrow> ''model'')),
               (''parts'', Arr (gemini_parts m))])"
  by (rule ext) (rule gemini_turn_explicit)

subsection \<open>Translation history\<close>

lemma addToHistory_take:
  "addToHistory transState imgTransState uuid now source result isImage prev =
     new_history_item transState imgTransState uuid now source result isImage # take 49 prev"
  by (simp add: addToHistory_def js_slice_0 take_Cons')

text \<open>
  Claim C8, as the code has it: after an append the history is the new entry (never a
  favourite) followed by the first 49 previous entries in their order, so it holds at
  most 50 entries, newest first; the cut looks at no favourite flag.  Favourites are
  exempt from \<open>onClearHistory\<close> only, which keeps exactly them, in order.
\<close>

theorem addToHistory_bounded:
  "addToHistory transState imgTransState uuid now source result isImage prev =
     new_history_item transState imgTransState uuid now source result isImage # take 49 prev
   \<and> length (addToHistory transState imgTransState uuid now source result isImage prev) \<le> 50
   \<and> \<not> isFavorite (new_history_item transState imgTransState uuid now source result isImage)
   \<and> onClearHistory prev = filter isFavorite prev
   \<and> set (onClearHistory prev) = {h \<in> set prev. isFavorite h}"
  by (simp add: addToHistory_take new_history_item_def onClearHistory_def)

text \<open>
  The claim as stated fails: with fifty entries of which the oldest is a favourite,
  one more append removes that favourite.
\<close>

theorem addToHistory_drops_favorite_counterexample:
  "length full_history = 50
   \<and> isFavorite (old_item 0 True)
   \<and> old_item 0 True \<in> set full_history
   \<and> old_item 0 True \<notin> set (addToHistory history_state history_state ''new'' 50
         ''Hello'' ''Bonjour'' False full_history)"
proof -
  have len: "length full_history = 50"
    by (simp add: full_history_def)
  have cut: "take 49 full_history = map (\<lambda>n. old_item n False) (rev [1..<50])"
    by (simp add: full_history_def)
  have "old_item 0 True \<notin> set (map (\<lambda>n. old_item n False) (rev [1..<50]))"
    by (auto simp: old_item_def)
  moreover have "old_item 0 True \<noteq> new_history_item history_state history_state ''new'' 50
      ''Hello'' ''Bonjour'' False"
    by (simp add: old_item_def new_history_item_def)
  ultimately have "old_item 0 True \<notin> set (addToHistory history_state history_state ''new'' 50
         ''Hello'' ''Bonjour'' False full_history)"
    by (simp add: addToHistory_take cut)
  with len show ?thesis
    by (simp add: full_history_def old_item_def)
qed

subsection \<open>The context window of chat\<close>

text \<open>
  Claim C2, for a window of at least one message: with \<open>1 \<le> maxContext = k < N\<close>
  the window is exactly the last \<open>k\<close> messages and \<open>chat\<close> behaves as if called on
  them alone.  The one request of the OpenAI-compatible path has as its messages the
  system message followed by the encodings of these \<open>k\<close> messages, each with its role
  and content (and image).  On the Gemini path, with a cached client or a client the
  SDK builds now, the one call carries all but the last of them as history and the
  last as the new message; if the SDK refuses to build a client nothing is sent.
\<close>

theorem chat_window_last_k:
  assumes "1 \<le> maxContext settings" and "maxContext settings < int (length messages)"
  shows "let recent = drop (length messages - nat (maxContext settings)) messages;
             system = Obj [(''role'', Str ''system''), (''content'', Str (chat_instruction settings))];
             encoded = (\<lambda>m.
               Obj [(''role'', Str (case m_role m of User \<Rightarrow> ''user'' | Assistant \<Rightarrow> ''assistant'')),
                    (''content'',
                       (case m_image m of
                          Some img \<Rightarrow>
                            if img \<noteq> []
                            then Arr [Obj [(''type'', Str ''text''), (''text'', Str (m_content m))],
                                      Obj [(''type'', Str ''image_url''),
                                           (''image_url'', Obj [(''url'', Str img)])]]
                            else Str (m_content m)
                        | None \<Rightarrow> Str (m_content m)))]);
             parts = (\<lambda>m.
               (case m_image m of
                  Some img \<Rightarrow>
                    (if img \<noteq> []
                     then (case match_data_uri img of
                             Some (mimeType, d) \<Rightarrow>
                               [Obj [(''inlineData'',
                                      Obj [(''mimeType'', Str mimeType), (''data'', Str d)])]]
                           | None \<Rightarrow> [])
                     else [])
                | None \<Rightarrow> [])
               @ [Obj [(''text'', Str (m_content m))]]);
             turn = (\<lambda>m.
               Obj [(''role'', Str (case m_role m of User \<Rightarrow> ''user'' | Assistant \<Rightarrow> ''model'')),
                    (''parts'', Arr (parts m))]);
             create = Obj [(''model'', Str model),
                           (''history'', Arr (map turn (butlast recent))),
                           (''config'', Obj [(''systemInstruction'', Str (chat_instruction settings)),
                                             (''temperature'', Num (temperature settings))])];
             message = Obj [(''message'', Obj [(''parts'', Arr (parts (last recent)))])];
             key = (if geminiKey (activeConfig w) \<noteq> [] then Some (geminiKey (activeConfig w))
                    else process_env_API_KEY E)
         in length recent = nat (maxContext settings)
          \<and> contextMessages settings messages = recent
          \<and> chat E messages provider model settings signal
              = chat E recent provider model settings signal
          \<and> (openaiKey (activeConfig w) \<noteq> [] \<longrightarrow>
               snd (chat E messages OpenAI model settings signal w) =
               w\<lparr>trace := trace w @
                 [NetFetch
                    (rev (dropWhile (\<lambda>c. c = CHR ''/'') (rev (openaiBaseUrl (activeConfig w))))
                       @ ''/chat/completions'')
                    \<lparr>ri_method = Some ''POST'',
                     ri_headers = [(''Content-Type'', ''application/json''),
                                   (''Authorization'', ''Bearer '' @ openaiKey (activeConfig w))],
                     ri_body = Some (Obj [(''model'', Str model),
                                          (''messages'', Arr (system # map encoded recent)),
                                          (''temperature'', Num (temperature settings))]),
                     ri_signal = signal\<rparr>]\<rparr>)
          \<and> snd (chat E messages Gemini model settings signal w) =
              (case aiInstance w of
                 Some ai \<Rightarrow> w\<lparr>trace := trace w @ [ChatSendMessage ai create message]\<rparr>
               | None \<Rightarrow>
                   (case new_GoogleGenAI E key of
                      Inl e \<Rightarrow> w\<lparr>trace := trace w @ [NewGoogleGenAI key]\<rparr>
                    | Inr u \<Rightarrow>
                        w\<lparr>aiInstance := Some (GoogleGenAI key),
                          trace := trace w @ [NewGoogleGenAI key,
                                              ChatSendMessage (GoogleGenAI key) create message]\<rparr>))"
proof -
  define recent where "recent = drop (length messages - nat (maxContext settings)) messages"
  from assms have len: "length recent = nat (maxContext settings)"
    by (simp add: recent_def)
  from assms have ctx: "contextMessages settings messages = recent"
    by (simp add: contextMessages_def recent_def js_slice_from_neg)
  from assms len have ne: "recent \<noteq> []"
    by auto
  from assms len have "contextMessages settings recent = recent"
    by (simp add: contextMessages_def js_slice_from_all)
  with ctx have same: "chat E messages provider model settings signal
      = chat E recent provider model settings signal"
    by (intro chat_context_only) simp
  note oa = chat_openai_request [of w E messages model settings signal,
      unfolded ctx openAIMessages_def completion_options_def completion_url_def Let_def
        openai_message_fun]
  from ne have ne': "contextMessages settings messages \<noteq> []"
    by (simp add: ctx)
  note ge = chat_gemini_world [OF ne', of E model signal w,
      unfolded ctx gemini_chat_config_def gemini_chat_message_def gemini_history_def
        js_slice_butlast gemini_key_def Let_def gemini_turn_fun gemini_parts_fun]
  from len ctx same oa ge show ?thesis
    unfolding recent_def Let_def by blast
qed

theorem chat_window_last_k_witness:
  "1 \<le> maxContext (sample_settings 2)
   \<and> maxContext (sample_settings 2) < int (length picture_messages)
   \<and> contextMessages (sample_settings 2) picture_messages
       = [sample_message ''2'' Assistant ''Hello'',
          (sample_message ''3'' User ''What is this?'')\<lparr>m_image := Some ''data:image/png;base64,AAAA''\<rparr>]
   \<and> snd (chat offline picture_messages OpenAI ''gpt-4o'' (sample_settings 2) None chat_world) =
       chat_world\<lparr>trace :=
         [NetFetch ''https://api.openai.com/v1/chat/completions''
            \<lparr>ri_method = Some ''POST'',
             ri_headers = [(''Content-Type'', ''application/json''),
                           (''Authorization'', ''Bearer sk-test'')],
             ri_body = Some (Obj
               [(''model'', Str ''gpt-4o''),
                (''messages'', Arr
                   [Obj [(''role'', Str ''system''), (''content'', Str default_chat_instruction)],
                    Obj [(''role'', Str ''assistant''), (''content'', Str ''Hello'')],
                    Obj [(''role'', Str ''user''),
                         (''content'', Arr
                            [Obj [(''type'', Str ''text''), (''text'', Str ''What is this?'')],
                             Obj [(''type'', Str ''image_url''),
                                  (''image_url'', Obj [(''url'', Str ''data:image/png;base64,AAAA'')])]])]]),
                (''temperature'', Num (7 / 10))]),
             ri_signal = None\<rparr>]\<rparr>
   \<and> snd (chat offline picture_messages Gemini ''gemini-2.0-flash'' (sample_settings 2) None chat_world) =
       chat_world\<lparr>aiInstance := Some (GoogleGenAI (Some ''g-test'')),
         trace :=
           [NewGoogleGenAI (Some ''g-test''),
            ChatSendMessage (GoogleGenAI (Some ''g-test''))
              (Obj [(''model'', Str ''gemini-2.0-flash''),
                    (''history'', Arr
                       [Obj [(''role'', Str ''model''), (''parts'', Arr [Obj [(''text'', Str ''Hello'')]])]]),
                    (''config'', Obj [(''systemInstruction'', Str default_chat_instruction),
                                      (''temperature'', Num (7 / 10))])])
              (Obj [(''message'', Obj [(''parts'', Arr
                 [Obj [(''inlineData'', Obj [(''mimeType'', Str ''image/png''), (''data'', Str ''AAAA'')])],
                  Obj [(''text'', Str ''What is this?'')]])])])]\<rparr>"
proof -
  have h1: "1 \<le> maxContext (sample_settings 2)"
    by (simp add: sample_settings_def)
  have h2: "maxContext (sample_settings 2) < int (length picture_messages)"
    by (simp add: sample_settings_def picture_messages_def)
  have kne: "openaiKey (activeConfig chat_world) \<noteq> []"
    by (simp add: chat_world_def initial_world_def API_CONFIG_def)
  note T = chat_window_last_k [OF h1 h2, where E = offline and model = "''gpt-4o''"
      and signal = None and w = chat_world,
      unfolded Let_def]
  note G = chat_window_last_k [OF h1 h2, where E = offline and model = "''gemini-2.0-flash''"
      and signal = None and w = chat_world,
      unfolded Let_def]
  note ctx = T [THEN conjunct2, THEN conjunct1]
  note oa = T [THEN conjunct2, THEN conjunct2, THEN conjunct2, THEN conjunct1, THEN mp, OF kne]
  note ge = G [THEN conjunct2, THEN conjunct2, THEN conjunct2, THEN conjunct2]
  have data_uri: "match_data_uri ''data:image/png;base64,AAAA'' = Some (''image/png'', ''AAAA'')"
    by (simp add: match_data_uri_def startsWith_def line_terminator_def)
  show ?thesis
    unfolding oa ge ctx
    using h1 h2
    by (simp add: sample_settings_def picture_messages_def sample_message_def chat_world_def
        initial_world_def API_CONFIG_def chat_instruction_def offline_def data_uri)
qed

text \<open>
  The claim as stated includes \<open>k = 0\<close>, where it fails: the window is then the whole
  list, and all three messages are sent.
\<close>

theorem chat_window_zero_counterexample:
  "maxContext (sample_settings 0) = 0
   \<and> maxContext (sample_settings 0) < int (length sample_messages)
   \<and> length (contextMessages (sample_settings 0) sample_messages) = 3
   \<and> snd (chat offline sample_messages OpenAI ''gpt-4o'' (sample_settings 0) None keyed_world) =
       keyed_world\<lparr>trace :=
         [NetFetch ''https://api.openai.com/v1/chat/completions''
            \<lparr>ri_method = Some ''POST'',
             ri_headers = [(''Content-Type'', ''application/json''),
                           (''Authorization'', ''Bearer sk-test'')],
             ri_body = Some (Obj
               [(''model'', Str ''gpt-4o''),
                (''messages'', Arr
                   [Obj [(''role'', Str ''system''), (''content'', Str default_chat_instruction)],
                    Obj [(''role'', Str ''user''), (''content'', Str ''Hi'')],
                    Obj [(''role'', Str ''assistant''), (''content'', Str ''Hello'')],
                    Obj [(''role'', Str ''user''), (''content'', Str ''Bye'')]]),
                (''temperature'', Num (7 / 10))]),
             ri_signal = None\<rparr>]\<rparr>"
proof -
  have ctx: "contextMessages (sample_settings 0) sample_messages = sample_messages"
    by (simp add: contextMessages_def sample_settings_def js_slice_from_zero)
  have kne: "openaiKey (activeConfig keyed_world) \<noteq> []"
    by (simp add: keyed_world_def initial_world_def API_CONFIG_def)
  note req = chat_openai_request [OF kne, of offline sample_messages "''gpt-4o''" "sample_settings 0" None]
  show ?thesis
    unfolding req ctx
    by (simp add: openAIMessages_def chat_instruction_def sample_settings_def sample_messages_def
        sample_message_def openai_message_def keyed_world_def initial_world_def API_CONFIG_def
        completion_url_def completion_options_def)
qed

text \<open>
  Claim C10: with \<open>maxContext = 0\<close> the window \<^verbatim>\<open>messages.slice(-0)\<close> is the whole
  list, so \<open>chat\<close> sends the entire history and not zero messages.  The one request of
  the OpenAI-compatible path has as its messages the system message followed by the
  encoding of every message; on the Gemini path, with a cached client or a client
  the SDK builds now, the one call carries all but the last message as history and
  the last as the new message.
\<close>

theorem chat_zero_maxContext_sends_all:
  assumes "maxContext settings = 0" and "messages \<noteq> []"
  shows "let
             system = Obj [(''role'', Str ''system''), (''content'', Str (chat_instruction settings))];
             encoded = (\<lambda>m.
               Obj [(''role'', Str (case m_role m of User \<Rightarrow> ''user'' | Assistant \<Rightarrow> ''assistant'')),
                    (''content'',
                       (case m_image m of
                          Some img \<Rightarrow>
                            if img \<noteq> []
                            then Arr [Obj [(''type'', Str ''text''), (''text'', Str (m_content m))],
                                      Obj [(''type'', Str ''image_url''),
                                           (''image_url'', Obj [(''url'', Str img)])]]
                            else Str (m_content m)
                        | None \<Rightarrow> Str (m_content m)))]);
             parts = (\<lambda>m.
               (case m_image m of
                  Some img \<Rightarrow>
                    (if img \<noteq> []
                     then (case match_data_uri img of
                             Some (mimeType, d) \<Rightarrow>
                               [Obj [(''inlineData'',
                                      Obj [(''mimeType'', Str mimeType), (''data'', Str d)])]]
                           | None \<Rightarrow> [])
                     else [])
                | None \<Rightarrow> [])
               @ [Obj [(''text'', Str (m_content m))]]);
             turn = (\<lambda>m.
               Obj [(''role'', Str (case m_role m of User \<Rightarrow> ''user'' | Assistant \<Rightarrow> ''model'')),
                    (''parts'', Arr (parts m))]);
             create = Obj [(''model'', Str model),
                           (''history'', Arr (map turn (butlast messages))),
                           (''config'', Obj [(''systemInstruction'', Str (chat_instruction settings)),
                                             (''temperature'', Num (temperature settings))])];
             message = Obj [(''message'', Obj [(''parts'', Arr (parts (last messages)))])];
             key = (if geminiKey (activeConfig w) \<noteq> [] then Some (geminiKey (activeConfig w))
                    else process_env_API_KEY E)
         in contextMessages settings messages = messages
          \<and> length (contextMessages settings messages) = length messages
          \<and> (openaiKey (activeConfig w) \<noteq> [] \<longrightarrow>
               snd (chat E messages OpenAI model settings signal w) =
               w\<lparr>trace := trace w @
                 [NetFetch
                    (rev (dropWhile (\<lambda>c. c = CHR ''/'') (rev (openaiBaseUrl (activeConfig w))))
                       @ ''/chat/completions'')
                    \<lparr>ri_method = Some ''POST'',
                     ri_headers = [(''Content-Type'', ''application/json''),
                                   (''Authorization'', ''Bearer '' @ openaiKey (activeConfig w))],
                     ri_body = Some (Obj [(''model'', Str model),
                                          (''messages'', Arr (system # map encoded messages)),
                                          (''temperature'', Num (temperature settings))]),
                     ri_signal = signal\<rparr>]\<rparr>)
          \<and> snd (chat E messages Gemini model settings signal w) =
              (case aiInstance w of
                 Some ai \<Rightarrow> w\<lparr>trace := trace w @ [ChatSendMessage ai create message]\<rparr>
               | None \<Rightarrow>
                   (case new_GoogleGenAI E key of
                      Inl e \<Rightarrow> w\<lparr>trace := trace w @ [NewGoogleGenAI key]\<rparr>
                    | Inr u \<Rightarrow>
                        w\<lparr>aiInstance := Some (GoogleGenAI key),
                          trace := trace w @ [NewGoogleGenAI key,
                                              ChatSendMessage (GoogleGenAI key) create message]\<rparr>))"
proof -
  from assms have ctx: "contextMessages settings messages = messages"
    by (simp add: contextMessages_def js_slice_from_zero)
  note oa = chat_openai_request [of w E messages model settings signal,
      unfolded ctx openAIMessages_def completion_options_def completion_url_def Let_def
        openai_message_fun]
  from assms have ne': "contextMessages settings messages \<noteq> []"
    by (simp add: ctx)
  note ge = chat_gemini_world [OF ne', of E model signal w,
      unfolded ctx gemini_chat_config_def gemini_chat_message_def gemini_history_def
        js_slice_butlast gemini_key_def Let_def gemini_turn_fun gemini_parts_fun]
  from ctx oa ge show ?thesis
    unfolding Let_def by simp
qed

theorem chat_zero_maxContext_sends_all_witness:
  "maxContext (sample_settings 0) = 0
   \<and> picture_messages \<noteq> []
   \<and> length (contextMessages (sample_settings 0) picture_messages) = 3
   \<and> snd (chat offline picture_messages OpenAI ''gpt-4o'' (sample_settings 0) None chat_world) =
       chat_world\<lparr>trace :=
         [NetFetch ''https://api.openai.com/v1/chat/completions''
            \<lparr>ri_method = Some ''POST'',
             ri_headers = [(''Content-Type'', ''application/json''),
                           (''Authorization'', ''Bearer sk-test'')],
             ri_body = Some (Obj
               [(''model'', Str ''gpt-4o''),
                (''messages'', Arr
                   [Obj [(''role'', Str ''system''), (''content'', Str default_chat_instruction)],
                    Obj [(''role'', Str ''user''), (''content'', Str ''Hi'')],
                    Obj [(''role'', Str ''assistant''), (''content'', Str ''Hello'')],
                    Obj [(''role'', Str ''user''),
                         (''content'', Arr
                            [Obj [(''type'', Str ''text''), (''text'', Str ''What is this?'')],
                             Obj [(''type'', Str ''image_url''),
                                  (''image_url'', Obj [(''url'', Str ''data:image/png;base64,AAAA'')])]])]]),
                (''temperature'', Num (7 / 10))]),
             ri_signal = None\<rparr>]\<rparr>
   \<and> snd (chat offline picture_messages Gemini ''gemini-2.0-flash'' (sample_settings 0) None chat_world) =
       chat_world\<lparr>aiInstance := Some (GoogleGenAI (Some ''g-test'')),
         trace :=
           [NewGoogleGenAI (Some ''g-test''),
            ChatSendMessage (GoogleGenAI (Some ''g-test''))
              (Obj [(''model'', Str ''gemini-2.0-flash''),
                    (''history'', Arr
                       [Obj [(''role'', Str ''user''), (''parts'', Arr [Obj [(''text'', Str ''Hi'')]])],
                        Obj [(''role'', Str ''model''), (''parts'', Arr [Obj [(''text'', Str ''Hello'')]])]]),
                    (''config'', Obj [(''systemInstruction'', Str default_chat_instruction),
                                      (''temperature'', Num (7 / 10))])])
              (Obj [(''message'', Obj [(''parts'', Arr
                 [Obj [(''inlineData'', Obj [(''mimeType'', Str ''image/png''), (''data'', Str ''AAAA'')])],
                  Obj [(''text'', Str ''What is this?'')]])])])]\<rparr>"
proof -
  have h1: "maxContext (sample_settings 0) = 0"
    by (simp add: sample_settings_def)
  have h2: "picture_messages \<noteq> []"
    by (simp add: picture_messages_def)
  have kne: "openaiKey (activeConfig chat_world) \<noteq> []"
    by (simp add: chat_world_def initial_world_def API_CONFIG_def)
  note T = chat_zero_maxContext_sends_all [OF h1 h2, where E = offline
      and model = "''gpt-4o''" and signal = None and w = chat_world,
      unfolded Let_def]
  note G = chat_zero_maxContext_sends_all [OF h1 h2, where E = offline
      and model = "''gemini-2.0-flash''" and signal = None and w = chat_world,
      unfolded Let_def]
  note ctx = T [THEN conjunct1]
  note oa = T [THEN conjunct2, THEN conjunct2, THEN conjunct1, THEN mp, OF kne]
  note ge = G [THEN conjunct2, THEN conjunct2, THEN conjunct2]
  have data_uri: "match_data_uri ''data:image/png;base64,AAAA'' = Some (''image/png'', ''AAAA'')"
    by (simp add: match_data_uri_def startsWith_def line_terminator_def)
  show ?thesis
    unfolding oa ge ctx
    using h1 h2
    by (simp add: sample_settings_def picture_messages_def sample_message_def chat_world_def
        initial_world_def API_CONFIG_def chat_instruction_def offline_def data_uri)
qed

subsection \<open>The source list of search\<close>

lemma foldl_push: "foldl push xs ys = xs @ ys"
  by (induction ys arbitrary: xs) (simp_all add: push_def)

lemma foldl_clean_step:
  "fst (foldl clean_step (cs, seen) raw) = cs @ first_seen base_uri seen raw"
proof (induction raw arbitrary: cs seen)
  case Nil
  show ?case by simp
next
  case (Cons s raw)
  show ?case
  proof (cases "retained (base_uri s) \<and> base_uri s \<notin> seen")
    case True
    then have "clean_step (cs, seen) s = (cs @ [s], insert (base_uri s) seen)"
      by (simp add: clean_step_def retained_def push_def Let_def)
    with True Cons.IH [of "cs @ [s]" "insert (base_uri s) seen"] show ?thesis
      by simp
  next
    case False
    then have "clean_step (cs, seen) s = (cs, seen)"
      by (auto simp: clean_step_def retained_def Let_def)
    with False Cons.IH [of cs seen] show ?thesis
      by auto
  qed
qed

lemma cleanSources_first_seen: "cleanSources raw = first_seen base_uri {} raw"
  using foldl_clean_step [of "[]" "{}" raw] by (simp add: cleanSources_def)

lemma first_seen_bases:
  "key ` set (first_seen key seen raw) = {u \<in> key ` set raw. retained u \<and> u \<notin> seen}"
  by (induction raw arbitrary: seen) auto



lemma first_seen_first:
  "s \<in> set (first_seen key seen raw) \<Longrightarrow> find (\<lambda>r. key r = key s) raw = Some s"
proof (induction raw arbitrary: seen)
  case Nil
  then show ?case by simp
next
  case (Cons a raw)
  show ?case
  proof (cases "retained (key a) \<and> key a \<notin> seen")
    case True
    with Cons.prems have "s = a \<or> s \<in> set (first_seen key (insert (key a) seen) raw)"
      by auto
    then show ?thesis
    proof
      assume "s = a"
      then show ?thesis by simp
    next
      assume in_rest: "s \<in> set (first_seen key (insert (key a) seen) raw)"
      then have "key s \<in> key ` set (first_seen key (insert (key a) seen) raw)"
        by (rule imageI)
      then have "key s \<noteq> key a"
        unfolding first_seen_bases by auto
      with Cons.IH [OF in_rest] show ?thesis by auto
    qed
  next
    case False
    with Cons.prems have in_rest: "s \<in> set (first_seen key seen raw)"
      by auto
    then have "key s \<in> key ` set (first_seen key seen raw)"
      by (rule imageI)
    then have "retained (key s) \<and> key s \<notin> seen"
      unfolding first_seen_bases by auto
    with False have "key a \<noteq> key s"
      by auto
    with Cons.IH [OF in_rest] show ?thesis by auto
  qed
qed

lemma first_seen_member:
  "retained (key s) \<Longrightarrow> key s \<notin> seen \<Longrightarrow>
   find (\<lambda>r. key r = key s) raw = Some s \<Longrightarrow> s \<in> set (first_seen key seen raw)"
proof (induction raw arbitrary: seen)
  case Nil
  then show ?case by simp
next
  case (Cons a raw)
  show ?case
  proof (cases "key a = key s")
    case True
    with Cons.prems have "a = s" by simp
    with Cons.prems show ?thesis by simp
  next
    case False
    with Cons.prems have "find (\<lambda>r. key r = key s) raw = Some s"
      by simp
    with Cons.prems False Cons.IH [of seen] Cons.IH [of "insert (key a) seen"]
    show ?thesis by auto
  qed
qed

lemma cleanSources_member:
  "s \<in> set (cleanSources raw)
     \<longleftrightarrow> retained (base_uri s) \<and> find (\<lambda>r. base_uri r = base_uri s) raw = Some s"
proof
  assume m: "s \<in> set (cleanSources raw)"
  then have "base_uri s \<in> base_uri ` set (first_seen base_uri {} raw)"
    unfolding cleanSources_first_seen by (rule imageI)
  then have "retained (base_uri s)"
    unfolding first_seen_bases by simp
  with m first_seen_first [of s base_uri "{}" raw]
  show "retained (base_uri s) \<and> find (\<lambda>r. base_uri r = base_uri s) raw = Some s"
    by (simp add: cleanSources_first_seen)
next
  assume "retained (base_uri s) \<and> find (\<lambda>r. base_uri r = base_uri s) raw = Some s"
  then show "s \<in> set (cleanSources raw)"
    unfolding cleanSources_first_seen by (intro first_seen_member) simp_all
qed

lemma rawSources_append:
  "rawSources wikiData tavilyData braveData chunks t =
     (case wikiData of
        Some wd \<Rightarrow> [\<lparr>title = wiki_title wd, uri = wiki_uri wd, snippet = None\<rparr>]
      | None \<Rightarrow> [])
     @ grounding_sources chunks @ link_sources t @ tavilyData @ braveData"
  by (cases wikiData) (simp_all add: rawSources_def Let_def foldl_push unshift_def)


lemma uri_base_string: "string_uri s \<Longrightarrow> uri_base (any_uri s) = Inr (any_base s)"
  by (cases "any_uri s") (simp_all add: string_uri_def uri_base_def any_base_def)



lemma foldl_clean_step_any:
  "list_all string_uri raw \<Longrightarrow>
   \<exists>seen'. foldl clean_step_any (Inr (cs, seen)) raw = Inr (cs @ first_seen any_base seen raw, seen')"
proof (induction raw arbitrary: cs seen)
  case Nil
  show ?case by simp
next
  case (Cons s raw)
  then have str: "uri_base (any_uri s) = Inr (any_base s)" and rest: "list_all string_uri raw"
    by (simp_all add: uri_base_string)
  show ?case
  proof (cases "retained (any_base s) \<and> any_base s \<notin> seen")
    case True
    with str have "clean_step_any (Inr (cs, seen)) s = Inr (cs @ [s], insert (any_base s) seen)"
      by (simp add: clean_step_any_def retained_def push_def)
    with True Cons.IH [OF rest, of "cs @ [s]" "insert (any_base s) seen"] show ?thesis
      by simp
  next
    case False
    with str have "clean_step_any (Inr (cs, seen)) s = Inr (cs, seen)"
      by (auto simp: clean_step_any_def retained_def)
    with False Cons.IH [OF rest, of cs seen] show ?thesis
      by auto
  qed
qed

lemma cleanSources_any_strings:
  "list_all string_uri raw \<Longrightarrow> cleanSources_any raw = Inr (first_seen any_base {} raw)"
  using foldl_clean_step_any [of raw "[]" "{}"] by (auto simp: cleanSources_any_def)



lemma any_base_any_source: "any_base (any_source s) = base_uri s"
  by (simp add: any_base_def any_source_def base_uri_def)

lemma first_seen_map: "first_seen key seen (map f raw) = map f (first_seen (key \<circ> f) seen raw)"
  by (induction raw arbitrary: seen) simp_all

lemma cleanSources_any_typed:
  "cleanSources_any (map any_source raw) = Inr (map any_source (cleanSources raw))"
proof -
  have "list_all string_uri (map any_source raw)"
    by (simp add: list_all_iff string_uri_def any_source_def)
  moreover have "any_base \<circ> any_source = base_uri"
    by (rule ext) (simp add: any_base_any_source)
  ultimately show ?thesis
    by (simp add: cleanSources_any_strings first_seen_map cleanSources_first_seen)
qed

lemma rawSources_any_append:
  "rawSources_any wikiData tavilyData braveData chunks t =
     (case wikiData of
        Some wd \<Rightarrow> [any_source \<lparr>title = wiki_title wd, uri = wiki_uri wd, snippet = None\<rparr>]
      | None \<Rightarrow> [])
     @ map any_source (grounding_sources chunks) @ map any_source (link_sources t)
     @ tavilyData @ braveData"
  by (cases wikiData) (simp_all add: rawSources_any_def Let_def foldl_push unshift_def)

lemma rawSources_any_typed:
  "rawSources_any wikiData (map any_source tavilyData) (map any_source braveData) chunks t =
     map any_source (rawSources wikiData tavilyData braveData chunks t)"
  by (cases wikiData) (simp_all add: rawSources_any_append rawSources_append)






subsection \<open>translate: credentials and OCR\<close>

lemma performOCR_world:
  "snd (performOCR E img lang w) = w\<lparr>trace := trace w @ ocr_events E img lang\<rparr>"
  by (cases "createWorker E (getTesseractLang lang)";
      cases "worker_recognize E (getTesseractLang lang) img";
      cases "worker_terminate E (getTesseractLang lang)")
     (simp_all add: performOCR_def ocr_events_def Let_def io_defs)

lemma ocr_events_ocr: "list_all is_ocr (ocr_events E img lang)"
  by (simp add: ocr_events_def Let_def split: sum.splits)

lemma ocr_events_no_fetch: "NetFetch url init \<notin> set (ocr_events E img lang)"
  by (simp add: ocr_events_def Let_def split: sum.splits)

lemma performOCR_success:
  assumes "createWorker E (getTesseractLang lang) = Inr ()"
    and "worker_recognize E (getTesseractLang lang) img = Inr t"
    and "worker_terminate E (getTesseractLang lang) = Inr ()"
  shows "performOCR E img lang w =
           (Inr t, w\<lparr>trace := trace w @
              [OcrCreateWorker (getTesseractLang lang), OcrRecognize (getTesseractLang lang) img,
               OcrTerminate (getTesseractLang lang)]\<rparr>)"
  using assms by (simp add: performOCR_def Let_def io_defs)

lemma translateDeepLX_no_endpoint:
  "deeplxEndpoint (activeConfig w) = [] \<Longrightarrow>
   translateDeepLX E params w = (Inl (new_Error ''DeepLX Endpoint is not configured.''), w)"
  by (simp add: translateDeepLX_def io_defs)

lemma translateDeepLX_world:
  "snd (translateDeepLX E params w) =
     (if deeplxEndpoint (activeConfig w) = [] then w
      else w\<lparr>trace := trace w @ [NetFetch (deeplxEndpoint (activeConfig w)) (deeplx_options params)]\<rparr>)"
proof (cases "deeplxEndpoint (activeConfig w) = []")
  case True
  then show ?thesis by (simp add: translateDeepLX_no_endpoint)
next
  case False
  obtain r w' where r: "safeFetch E (deeplxEndpoint (activeConfig w)) (deeplx_options params) w = (r, w')"
    by (cases "safeFetch E (deeplxEndpoint (activeConfig w)) (deeplx_options params) w")
  with safeFetch_world [of E "deeplxEndpoint (activeConfig w)" "deeplx_options params" w]
  have "w' = w\<lparr>trace := trace w @ [NetFetch (deeplxEndpoint (activeConfig w)) (deeplx_options params)]\<rparr>"
    by simp
  with False r show ?thesis
    by (cases r) (simp_all add: translateDeepLX_def Let_def io_bind_def io_config_def io_throw_def io_return_def)
qed

lemma translate_DeepLX_ocr:
  assumes "p_imageBase64 params = Some img" and "img \<noteq> []" and "p_text params = []"
  shows "translate E ''DeepLX'' params w =
           (case performOCR E img (p_sourceLang params) w of
              (Inl e, w') \<Rightarrow> (Inl e, w')
            | (Inr t, w') \<Rightarrow>
                if js_trim t = [] then (Inr (Str []), w')
                else translateDeepLX E (params\<lparr>p_text := t\<rparr>) w')"
  using assms by (simp add: translate_def io_bind_def io_return_def split: prod.splits sum.splits)





lemma client_current_initial: "client_current E initial_world"
  by (simp add: client_current_def initial_world_def)

lemma client_current_updateServiceConfig: "client_current E (updateServiceConfig newConfig w)"
  by (simp add: client_current_def updateServiceConfig_def)

lemma client_current_trace: "client_current E (w\<lparr>trace := tr\<rparr>) = client_current E w"
  by (cases "aiInstance w") (simp_all add: client_current_def)

lemma client_current_getAiClient:
  "client_current E w \<Longrightarrow> client_current E (snd (getAiClient E w))"
  by (cases "aiInstance w";
      cases "new_GoogleGenAI E (gemini_key E (activeConfig w))")
     (simp_all add: client_current_def getAiClient_def gemini_key_def Let_def)






text \<open>
  Claim C6, for an image that is not the empty string: with provider DeepLX, such an
  image and empty text, the OCR worker is created first, for the language of the
  request's \<open>sourceLang\<close>; and when the extracted text is blank, \<open>translate\<close> returns the
  empty string and the only calls made are those of the OCR worker; no request goes
  to the DeepLX endpoint (with a worker that runs through, the calls are exactly
  the three of the OCR).
\<close>

theorem translate_image_ocr:
  assumes "p_imageBase64 params = Some img" and "img \<noteq> []" and "p_text params = []"
  shows "(\<exists>rest. trace (snd (translate E ''DeepLX'' params w))
                  = trace w @ OcrCreateWorker (getTesseractLang (p_sourceLang params)) # rest)
       \<and> (performOCR E img (p_sourceLang params) w = (Inr t, w') \<and> js_trim t = [] \<longrightarrow>
            translate E ''DeepLX'' params w = (Inr (Str []), w')
            \<and> w' = w\<lparr>trace := trace w @ ocr_events E img (p_sourceLang params)\<rparr>
            \<and> list_all is_ocr (ocr_events E img (p_sourceLang params))
            \<and> (\<forall>url init. NetFetch url init \<notin> set (ocr_events E img (p_sourceLang params))))
       \<and> (createWorker E (getTesseractLang (p_sourceLang params)) = Inr ()
            \<and> worker_recognize E (getTesseractLang (p_sourceLang params)) img = Inr t
            \<and> worker_terminate E (getTesseractLang (p_sourceLang params)) = Inr ()
            \<and> js_trim t = [] \<longrightarrow>
            translate E ''DeepLX'' params w =
              (Inr (Str []),
               w\<lparr>trace := trace w @
                  [OcrCreateWorker (getTesseractLang (p_sourceLang params)),
                   OcrRecognize (getTesseractLang (p_sourceLang params)) img,
                   OcrTerminate (getTesseractLang (p_sourceLang params))]\<rparr>))"
proof -
  let ?lang = "getTesseractLang (p_sourceLang params)"
  note tr = translate_DeepLX_ocr [OF assms, of E w]
  obtain r w1 where ocr: "performOCR E img (p_sourceLang params) w = (r, w1)"
    by (cases "performOCR E img (p_sourceLang params) w")
  from performOCR_world [of E img "p_sourceLang params" w] ocr
  have w1: "w1 = w\<lparr>trace := trace w @ ocr_events E img (p_sourceLang params)\<rparr>"
    by simp
  obtain rest where rest: "ocr_events E img (p_sourceLang params) = OcrCreateWorker ?lang # rest"
    by (simp add: ocr_events_def Let_def)
  note quiet = ocr_events_ocr [of E img "p_sourceLang params"]
  have first: "\<exists>rest. trace (snd (translate E ''DeepLX'' params w))
                  = trace w @ OcrCreateWorker ?lang # rest"
  proof (cases r)
    case (Inl e)
    with tr ocr w1 rest show ?thesis by simp
  next
    case (Inr t')
    show ?thesis
    proof (cases "js_trim t' = []")
      case True
      with Inr tr ocr w1 rest show ?thesis by simp
    next
      case False
      with Inr tr ocr have "snd (translate E ''DeepLX'' params w)
          = snd (translateDeepLX E (params\<lparr>p_text := t'\<rparr>) w1)"
        by simp
      then show ?thesis
        by (simp add: translateDeepLX_world w1 rest)
    qed
  qed
  have blank: "performOCR E img (p_sourceLang params) w = (Inr t, w') \<and> js_trim t = [] \<longrightarrow>
            translate E ''DeepLX'' params w = (Inr (Str []), w')
            \<and> w' = w\<lparr>trace := trace w @ ocr_events E img (p_sourceLang params)\<rparr>
            \<and> list_all is_ocr (ocr_events E img (p_sourceLang params))
            \<and> (\<forall>url init. NetFetch url init \<notin> set (ocr_events E img (p_sourceLang params)))"
    using tr ocr w1 quiet ocr_events_no_fetch [of _ _ E img "p_sourceLang params"] by auto
  have run: "createWorker E ?lang = Inr () \<and> worker_recognize E ?lang img = Inr t
            \<and> worker_terminate E ?lang = Inr () \<and> js_trim t = [] \<longrightarrow>
            translate E ''DeepLX'' params w =
              (Inr (Str []),
               w\<lparr>trace := trace w @ [OcrCreateWorker ?lang, OcrRecognize ?lang img, OcrTerminate ?lang]\<rparr>)"
    using tr performOCR_success [of E "p_sourceLang params" img t w] by auto
  from first blank run show ?thesis
    by blast
qed

theorem translate_image_ocr_witness:
  "p_imageBase64 (hello_params [] (Some ''data:image/png;base64,AAAA'') ''deeplx'')
     = Some ''data:image/png;base64,AAAA''
   \<and> p_text (hello_params [] (Some ''data:image/png;base64,AAAA'') ''deeplx'') = []
   \<and> js_trim [CHR 0x20, CHR 0x0A] = []
   \<and> translate blank_scan ''DeepLX'' (hello_params [] (Some ''data:image/png;base64,AAAA'') ''deeplx'')
        initial_world
       = (Inr (Str []),
          initial_world\<lparr>trace :=
            [OcrCreateWorker ''jpn'', OcrRecognize ''jpn'' ''data:image/png;base64,AAAA'',
             OcrTerminate ''jpn'']\<rparr>)"
proof -
  let ?img = "''data:image/png;base64,AAAA''"
  let ?p = "hello_params [] (Some ?img) ''deeplx''"
  have h1: "p_imageBase64 ?p = Some ?img" and h2: "?img \<noteq> []" and h3: "p_text ?p = []"
    by (simp_all add: hello_params_def)
  have lang: "getTesseractLang (p_sourceLang ?p) = ''jpn''"
    by (simp add: hello_params_def getTesseractLang_def tesseract_langs_def str_or_def)
  have blank: "js_trim [CHR 0x20, CHR 0x0A] = []"
    by (simp add: js_trim_def js_whitespace_def)
  have ocr: "createWorker blank_scan (getTesseractLang (p_sourceLang ?p)) = Inr ()
     \<and> worker_recognize blank_scan (getTesseractLang (p_sourceLang ?p)) ?img = Inr [CHR 0x20, CHR 0x0A]
     \<and> worker_terminate blank_scan (getTesseractLang (p_sourceLang ?p)) = Inr ()
     \<and> js_trim [CHR 0x20, CHR 0x0A] = []"
    using blank by (simp add: blank_scan_def)
  from translate_image_ocr [OF h1 h2 h3, of blank_scan initial_world "[CHR 0x20, CHR 0x0A]"] ocr
  have "translate blank_scan ''DeepLX'' ?p initial_world =
     (Inr (Str []),
      initial_world\<lparr>trace := trace initial_world @
         [OcrCreateWorker (getTesseractLang (p_sourceLang ?p)),
          OcrRecognize (getTesseractLang (p_sourceLang ?p)) ?img,
          OcrTerminate (getTesseractLang (p_sourceLang ?p))]\<rparr>)"
    by blast
  with h1 h3 blank show ?thesis
    unfolding lang by (simp add: initial_world_def)
qed

text \<open>
  The claim as stated asks only that the image is not null; the empty string is not
  null, and for it no OCR is run.
\<close>

theorem translate_empty_image_counterexample:
  "p_imageBase64 (hello_params [] (Some []) ''deeplx'') \<noteq> None
   \<and> p_text (hello_params [] (Some []) ''deeplx'') = []
   \<and> translate blank_scan ''DeepLX'' (hello_params [] (Some []) ''deeplx'') initial_world
       = (Inr (Str []), initial_world)
   \<and> trace (snd (translate blank_scan ''DeepLX'' (hello_params [] (Some []) ''deeplx'') initial_world))
       = []"
  by (simp add: translate_def hello_params_def io_defs js_trim_def initial_world_def)

subsection \<open>chat: cancellation\<close>

lemma safeFetch_abort:
  assumes "fetch E url options = Inl e
           \<or> (\<exists>response. fetch E url options = Inr response \<and> resp_text response = Inl e)"
    and "err_name e = ''AbortError''"
  shows "safeFetch E url options w = (Inl e, w\<lparr>trace := trace w @ [NetFetch url options]\<rparr>)"
  using assms by (auto simp: safeFetch_def io_defs)

text \<open>
  Claim C7: when the request of an OpenAI-compatible chat call is aborted (the fetch,
  or the reading of its body, rejects with an error named \<^verbatim>\<open>AbortError\<close>), the fetch
  helper throws that very error and so does \<open>chat\<close>: the outcome is the error itself,
  not a result and not a new error made from its message.
\<close>

theorem abort_is_reraised:
  assumes key: "openaiKey (activeConfig w) \<noteq> []"
    and url: "url = completion_url (openaiBaseUrl (activeConfig w))"
    and options: "options = completion_options (openaiKey (activeConfig w)) model
                    (openAIMessages (chat_instruction settings) (contextMessages settings messages))
                    (temperature settings) signal"
    and aborted: "fetch E url options = Inl e
           \<or> (\<exists>response. fetch E url options = Inr response \<and> resp_text response = Inl e)"
    and name: "err_name e = ''AbortError''"
  shows "safeFetch E url options w = (Inl e, w\<lparr>trace := trace w @ [NetFetch url options]\<rparr>)
       \<and> chat E messages OpenAI model settings signal w
           = (Inl e, w\<lparr>trace := trace w @ [NetFetch url options]\<rparr>)"
proof -
  let ?w' = "w\<lparr>trace := trace w @ [NetFetch url options]\<rparr>"
  have fetch_layer: "safeFetch E url options w = (Inl e, ?w')"
    using aborted name by (rule safeFetch_abort)
  then have "openAICompletion E (openaiBaseUrl (activeConfig w)) (openaiKey (activeConfig w)) model
                (openAIMessages (chat_instruction settings) (contextMessages settings messages))
                (temperature settings) signal w = (Inl e, ?w')"
    unfolding openAICompletion_def url options by (rule io_bind_Inl)
  then have "io_bind (openAICompletion E (openaiBaseUrl (activeConfig w)) (openaiKey (activeConfig w)) model
                (openAIMessages (chat_instruction settings) (contextMessages settings messages))
                (temperature settings) signal) f w = (Inl e, ?w')" for f :: "js_value \<Rightarrow> string io"
    by (rule io_bind_Inl)
  with key name have "chat E messages OpenAI model settings signal w = (Inl e, ?w')"
    by (simp add: chat_def Let_def io_config_def io_bind_def io_catch_def io_throw_def)
  with fetch_layer show ?thesis
    by simp
qed

theorem abort_is_reraised_witness:
  "openaiKey (activeConfig keyed_world) \<noteq> []
   \<and> fetch aborting ''https://api.openai.com/v1/chat/completions''
        (completion_options ''sk-test'' ''gpt-4o''
           (openAIMessages (chat_instruction (sample_settings 2))
              (contextMessages (sample_settings 2) sample_messages))
           (7 / 10) (Some 1)) = Inl abort_error
   \<and> err_name abort_error = ''AbortError''
   \<and> chat aborting sample_messages OpenAI ''gpt-4o'' (sample_settings 2) (Some 1) keyed_world
       = (Inl abort_error,
          keyed_world\<lparr>trace := trace keyed_world @
            [NetFetch ''https://api.openai.com/v1/chat/completions''
               (completion_options ''sk-test'' ''gpt-4o''
                  (openAIMessages (chat_instruction (sample_settings 2))
                     (contextMessages (sample_settings 2) sample_messages))
                  (7 / 10) (Some 1))]\<rparr>)"
proof -
  let ?url = "''https://api.openai.com/v1/chat/completions''"
  let ?options = "completion_options ''sk-test'' ''gpt-4o''
           (openAIMessages (chat_instruction (sample_settings 2))
              (contextMessages (sample_settings 2) sample_messages))
           (7 / 10) (Some 1)"
  have key: "openaiKey (activeConfig keyed_world) \<noteq> []"
    by (simp add: keyed_world_def initial_world_def API_CONFIG_def)
  have url: "?url = completion_url (openaiBaseUrl (activeConfig keyed_world))"
    by (simp add: keyed_world_def initial_world_def API_CONFIG_def completion_url_def)
  have options: "?options = completion_options (openaiKey (activeConfig keyed_world)) ''gpt-4o''
                    (openAIMessages (chat_instruction (sample_settings 2))
                       (contextMessages (sample_settings 2) sample_messages))
                    (temperature (sample_settings 2)) (Some 1)"
    by (simp add: keyed_world_def initial_world_def API_CONFIG_def sample_settings_def)
  have f: "fetch aborting ?url ?options = Inl abort_error"
    by (simp add: aborting_def)
  then have aborted: "fetch aborting ?url ?options = Inl abort_error
     \<or> (\<exists>response. fetch aborting ?url ?options = Inr response \<and> resp_text response = Inl abort_error)"
    by (rule disjI1)
  have name: "err_name abort_error = ''AbortError''"
    by (simp add: abort_error_def)
  from abort_is_reraised [OF key url options aborted name] key f name
  show ?thesis
    by blast
qed

subsection \<open>search: failures\<close>

lemma io_settled_run: "m w = (r, w') \<Longrightarrow> io_settled m w = (Inr r, w')"
  by (simp add: io_settled_def)

lemma safeFetch_run:
  "safeFetch E url options w =
     (safeFetch_result E url options, w\<lparr>trace := trace w @ [NetFetch url options]\<rparr>)"
proof (cases "fetch E url options")
  case (Inl error)
  then show ?thesis
    by (simp add: safeFetch_def safeFetch_result_def io_defs)
next
  case (Inr response)
  then show ?thesis
    by (cases "resp_text response")
       (simp_all add: safeFetch_def safeFetch_result_def Let_def io_defs)
qed

lemma fetchWikipedia_run:
  "fetchWikipedia E query w =
     (Inr (wiki_contribution E query), w\<lparr>trace := trace w @ [WikipediaRequest query]\<rparr>)"
  by (cases "wikipedia_outcome E query")
     (simp_all add: fetchWikipedia_def wiki_contribution_def io_defs)

lemma fetchTavily_run:
  "fetchTavily E query w =
     (Inr (tavily_contribution E (activeConfig w) query),
      w\<lparr>trace := trace w @
         (if tavilyKey (activeConfig w) = [] then []
          else [NetFetch tavily_url (tavily_options (tavilyKey (activeConfig w)) query)])\<rparr>)"
proof (cases "tavilyKey (activeConfig w) = []")
  case True
  then show ?thesis
    by (simp add: fetchTavily_def tavily_contribution_def io_defs)
next
  case False
  let ?opts = "tavily_options (tavilyKey (activeConfig w)) query"
  note run = safeFetch_run [of E tavily_url ?opts w]
  show ?thesis
  proof (cases "safeFetch_result E tavily_url ?opts")
    case (Inl e)
    with False run show ?thesis
      by (simp add: fetchTavily_def tavily_contribution_def io_defs)
  next
    case (Inr result)
    with False run show ?thesis
      by (cases "map_results (js_get_opt (fr_data result) ''results'') ''content''")
         (simp_all add: fetchTavily_def tavily_contribution_def io_defs)
  qed
qed

lemma fetchBrave_run:
  "fetchBrave E query w =
     (Inr (brave_contribution E (activeConfig w) query),
      w\<lparr>trace := trace w @
         (if braveKey (activeConfig w) = [] then []
          else [NetFetch (brave_url E query) (brave_options (braveKey (activeConfig w)))])\<rparr>)"
proof (cases "braveKey (activeConfig w) = []")
  case True
  then show ?thesis
    by (simp add: fetchBrave_def brave_contribution_def io_defs)
next
  case False
  let ?opts = "brave_options (braveKey (activeConfig w))"
  note run = safeFetch_run [of E "brave_url E query" ?opts w]
  show ?thesis
  proof (cases "safeFetch_result E (brave_url E query) ?opts")
    case (Inl e)
    with False run show ?thesis
      by (simp add: fetchBrave_def brave_contribution_def io_defs)
  next
    case (Inr result)
    with False run show ?thesis
      by (cases "map_results (js_get_opt (js_get_opt (fr_data result) ''web'') ''results'')
                   ''description''")
         (simp_all add: fetchBrave_def brave_contribution_def io_defs)
  qed
qed

lemma getAiClient_trace_only:
  "fst (getAiClient E (w\<lparr>trace := tr\<rparr>)) = fst (getAiClient E w)"
  by (simp add: getAiClient_def Let_def split: option.splits sum.splits)

lemma search_run:
  "fst (search E query model w) =
     Inr (case search_client E w of
            Inl e \<Rightarrow> search_failed e
          | Inr ai \<Rightarrow>
              (case models_generateContent E ai (synthesis_request E w query model) of
                 Inl e \<Rightarrow> search_failed e
               | Inr response \<Rightarrow> search_answer E w query response))"
proof -
  let ?wd = "wiki_contribution E query"
  let ?td = "tavily_contribution E (activeConfig w) query"
  let ?bd = "brave_contribution E (activeConfig w) query"
  define w1 where "w1 = w\<lparr>trace := trace w @ [WikipediaRequest query]\<rparr>"
  define w2 where "w2 = w1\<lparr>trace := trace w1 @
         (if tavilyKey (activeConfig w1) = [] then []
          else [NetFetch tavily_url (tavily_options (tavilyKey (activeConfig w1)) query)])\<rparr>"
  define w3 where "w3 = w2\<lparr>trace := trace w2 @
         (if braveKey (activeConfig w2) = [] then []
          else [NetFetch (brave_url E query) (brave_options (braveKey (activeConfig w2)))])\<rparr>"
  have cfg: "activeConfig w1 = activeConfig w" "activeConfig w2 = activeConfig w"
    by (simp_all add: w1_def w2_def)
  have s1: "io_settled (fetchWikipedia E query) w = (Inr (Inr ?wd), w1)"
    unfolding w1_def by (intro io_settled_run fetchWikipedia_run)
  have s2: "io_settled (fetchTavily E query) w1 = (Inr (Inr ?td), w2)"
    using fetchTavily_run [of E query w1] unfolding w2_def cfg by (intro io_settled_run) (simp add: cfg)
  have s3: "io_settled (fetchBrave E query) w2 = (Inr (Inr ?bd), w3)"
    using fetchBrave_run [of E query w2] unfolding w3_def cfg by (intro io_settled_run) (simp add: cfg)
  have b1: "io_bind (io_settled (fetchWikipedia E query)) f w = f (Inr ?wd) w1"
    for f :: "js_error + WikiData option \<Rightarrow> SearchResult io"
    using s1 by (simp add: io_bind_def)
  have b2: "io_bind (io_settled (fetchTavily E query)) f w1 = f (Inr ?td) w2"
    for f :: "js_error + AnySource list \<Rightarrow> SearchResult io"
    using s2 by (simp add: io_bind_def)
  have b3: "io_bind (io_settled (fetchBrave E query)) f w2 = f (Inr ?bd) w3"
    for f :: "js_error + AnySource list \<Rightarrow> SearchResult io"
    using s3 by (simp add: io_bind_def)
  have w3: "w3 = w\<lparr>trace := trace w3\<rparr>"
    by (simp add: w3_def w2_def w1_def)
  have client: "fst (getAiClient E w3) = search_client E w"
    unfolding search_client_def by (subst w3) (rule getAiClient_trace_only)
  obtain c w4 where c: "getAiClient E w3 = (c, w4)"
    by (cases "getAiClient E w3")
  with client have c': "search_client E w = c"
    by simp
  have body: "search E query model w =
     io_catch
       (io_bind (getAiClient E) (\<lambda>ai.
          io_bind (io_call (GenerateContent ai (search_request E query model ?wd ?td ?bd))
                     (models_generateContent E ai (search_request E query model ?wd ?td ?bd)))
            (\<lambda>response.
               io_bind (\<lambda>w. (cleanSources_any
                                (rawSources_any ?wd ?td ?bd (response_groundingChunks response)
                                   (answer_text response)), w)) (\<lambda>cleaned.
               io_return \<lparr>result_text = answer_text response, sources = cleaned\<rparr>))))
       (\<lambda>e. io_return \<lparr>result_text = ''**Search Unavailable**: '' @ err_message e, sources = []\<rparr>) w3"
    by (simp add: search_def io_catch_def b1 b2 b3 Let_def)
  show ?thesis
  proof (cases c)
    case (Inl e)
    with c c' show ?thesis
      unfolding body by (simp add: io_defs search_failed_def)
  next
    case (Inr ai)
    show ?thesis
    proof (cases "models_generateContent E ai (search_request E query model ?wd ?td ?bd)")
      case (Inl e)
      with Inr c c' show ?thesis
        unfolding body by (simp add: io_defs search_failed_def synthesis_request_def)
    next
      case gen: (Inr response)
      with Inr c c' show ?thesis
        unfolding body
        by (cases "cleanSources_any (rawSources_any ?wd ?td ?bd (response_groundingChunks response)
                     (answer_text response))")
           (simp_all add: io_defs search_failed_def search_answer_def search_raw_def
              synthesis_request_def)
    qed
  qed
qed






text \<open>
  Claim C4: \<open>search\<close> never throws; when the client cannot be obtained or the grounded
  generation call fails, it returns the text \<^verbatim>\<open>**Search Unavailable**: \<close> followed by
  the error's message, and no sources.
\<close>

theorem search_never_throws:
  "(\<exists>r. fst (search E query model w) = Inr r)
   \<and> (search_client E w = Inl e \<longrightarrow>
        fst (search E query model w)
          = Inr \<lparr>result_text = ''**Search Unavailable**: '' @ err_message e, sources = []\<rparr>)
   \<and> (search_client E w = Inr ai
        \<and> models_generateContent E ai (synthesis_request E w query model) = Inl e \<longrightarrow>
        fst (search E query model w)
          = Inr \<lparr>result_text = ''**Search Unavailable**: '' @ err_message e, sources = []\<rparr>)"
  by (simp add: search_run search_failed_def)

theorem search_never_throws_witness:
  "search_client offline initial_world = Inr (GoogleGenAI None)
   \<and> models_generateContent offline (GoogleGenAI None)
        (synthesis_request offline initial_world ''isabelle'' ''gemini-2.5-flash'')
       = Inl (JsError ''Error'' ''Failed to fetch'')
   \<and> fst (search offline ''isabelle'' ''gemini-2.5-flash'' initial_world)
       = Inr \<lparr>result_text = ''**Search Unavailable**: Failed to fetch'', sources = []\<rparr>"
proof -
  have c: "search_client offline initial_world = Inr (GoogleGenAI None)"
    by (simp add: search_client_def getAiClient_def Let_def offline_def initial_world_def API_CONFIG_def)
  have g: "models_generateContent offline (GoogleGenAI None)
        (synthesis_request offline initial_world ''isabelle'' ''gemini-2.5-flash'')
       = Inl (JsError ''Error'' ''Failed to fetch'')"
    by (simp add: offline_def)
  from search_never_throws [of offline "''isabelle''" "''gemini-2.5-flash''" initial_world
      "JsError ''Error'' ''Failed to fetch''" "GoogleGenAI None"] c g
  have "fst (search offline ''isabelle'' ''gemini-2.5-flash'' initial_world)
       = Inr \<lparr>result_text = ''**Search Unavailable**: ''
                 @ err_message (JsError ''Error'' ''Failed to fetch''), sources = []\<rparr>"
    by blast
  with c g show ?thesis
    by simp
qed










end
